theory Spec2Isabelle
  imports Main "HOL-Library.Sublist"
begin

section \<open>The article fetcher of \<^verbatim>\<open>utils/article_fetcher.py\<close>\<close>

text \<open>
  The module turns a URL into article text in two tiers: a \<^verbatim>\<open>requests\<close> fetch with
  one retry, and a Playwright headless browser as fallback. Everything the module gets
  from outside (the URL parser, the HTTP client, BeautifulSoup, Playwright) is a field
  of an environment record; nothing is assumed about those fields. What the module
  itself computes (string tests, thresholds, the retry loop, the fallback decision, the
  metadata dictionary) is written out below, function by function, under the source's
  names.
\<close>

subsection \<open>Python string operations used by the module\<close>

text \<open>
  Python strings are modelled as \<open>string\<close>. \<open>len\<close> is \<open>length\<close>, \<open>s[:n]\<close> is
  \<open>take n s\<close>, \<open>a + b\<close> is \<open>a @ b\<close>.
\<close>

text \<open>
  The characters of a \<open>string\<close> are the code points below 256. Those of them that
  \<^verbatim>\<open>str.strip\<close>, \<^verbatim>\<open>str.split\<close> and the regular expression \<^verbatim>\<open>\s\<close> take for
  whitespace are the space, U+0009 to U+000D, U+001C to U+001F, U+0085 and U+00A0.
\<close>

definition is_space :: "char \<Rightarrow> bool" where
  "is_space c =
     (c \<in> set [CHR '' '', CHR 0x09, CHR 0x0A, CHR 0x0B, CHR 0x0C, CHR 0x0D,
                CHR 0x1C, CHR 0x1D, CHR 0x1E, CHR 0x1F, CHR 0x85, CHR 0xA0])"

text \<open>\<^verbatim>\<open>s.strip()\<close>: whitespace removed at both ends.\<close>

definition strip :: "string \<Rightarrow> string" where
  "strip s = rev (dropWhile is_space (rev (dropWhile is_space s)))"

text \<open>\<^verbatim>\<open>s.split()\<close>: the maximal runs of non-whitespace characters, in order.\<close>

fun split_acc :: "string \<Rightarrow> string \<Rightarrow> string list" where
  "split_acc cur [] = (if cur = [] then [] else [cur])"
| "split_acc cur (c # cs) =
     (if is_space c then (if cur = [] then split_acc [] cs else cur # split_acc [] cs)
      else split_acc (cur @ [c]) cs)"

definition split_ws :: "string \<Rightarrow> string list" where
  "split_ws s = split_acc [] s"

text \<open>\<^verbatim>\<open>sep.join(xs)\<close>.\<close>

fun join :: "string \<Rightarrow> string list \<Rightarrow> string" where
  "join sep [] = []"
| "join sep [x] = x"
| "join sep (x # y # ys) = x @ sep @ join sep (y # ys)"

text \<open>\<^verbatim>\<open>s.lower()\<close> on the ASCII letters.\<close>

definition lower_char :: "char \<Rightarrow> char" where
  "lower_char c =
     (case map_of (zip ''ABCDEFGHIJKLMNOPQRSTUVWXYZ'' ''abcdefghijklmnopqrstuvwxyz'') c of
        Some l \<Rightarrow> l
      | None \<Rightarrow> c)"

definition lower :: "string \<Rightarrow> string" where
  "lower s = map lower_char s"

text \<open>\<^verbatim>\<open>sub in s\<close>: \<open>sub\<close> occurs in \<open>s\<close> as a contiguous substring.\<close>

fun contains :: "string \<Rightarrow> string \<Rightarrow> bool" where
  "contains sub [] = (sub = [])"
| "contains sub (c # cs) = (prefix sub (c # cs) \<or> contains sub cs)"

text \<open>
  \<^verbatim>\<open>s.replace(old, new)\<close> for a non-empty \<open>old\<close> (the module only ever replaces
  \<^verbatim>\<open>"www."\<close>): one pass from the left; where \<open>old\<close> starts, \<open>new\<close> is emitted and the
  scan resumes after the occurrence, so occurrences do not overlap and what the
  replacement produces is not scanned again.
\<close>

function replace :: "string \<Rightarrow> string \<Rightarrow> string \<Rightarrow> string" where
  "replace old new [] = []"
| "replace old new (c # cs) =
     (if old \<noteq> [] \<and> prefix old (c # cs)
      then new @ replace old new (drop (length old) (c # cs))
      else c # replace old new cs)"
  by pat_completeness auto
termination
  by (relation "measure (\<lambda>(old, new, s). length s)") (auto simp: neq_Nil_conv)

text \<open>
  \<^verbatim>\<open>str(n)\<close> for a non-negative integer, as f-strings print it. Each message the
  module builds has a definition of its own below, named after what it reports.
\<close>

definition digit_char :: "nat \<Rightarrow> char" where
  "digit_char d = ''0123456789'' ! d"

function str_nat :: "nat \<Rightarrow> string" where
  "str_nat n = (if n < 10 then [digit_char n] else str_nat (n div 10) @ [digit_char (n mod 10)])"
  by pat_completeness auto
termination
  by (relation "measure id") auto

declare str_nat.simps [simp del]

subsection \<open>Data: metadata, parsed URLs, outcomes of the outside world\<close>

text \<open>
  The \<^verbatim>\<open>metadata\<close> dictionary. The first seven keys are set when the dictionary is
  created; \<^verbatim>\<open>partial_content\<close> and \<^verbatim>\<open>partial_content_reason\<close> are absent (\<open>None\<close>)
  until \<^verbatim>\<open>handle_bloomberg_content\<close> sets them.
\<close>

record metadata =
  url :: string
  domain :: string
  title :: string
  author :: string
  fetch_errors :: "string list"
  http_status :: "nat option"
  fetch_method :: string
  partial_content :: "bool option"
  partial_content_reason :: "string option"

text \<open>A raised exception: \<^verbatim>\<open>type(e).__name__\<close> and \<^verbatim>\<open>str(e)\<close>.\<close>

datatype py_exception = PyException (exc_type: string) (exc_msg: string)

text \<open>The two attributes the module reads of \<^verbatim>\<open>urlparse(url)\<close>.\<close>

record parse_result =
  netloc :: string
  query :: string

text \<open>
  What one \<^verbatim>\<open>requests.get\<close> call does: it returns a response (status code and body
  bytes) or raises. The exceptions are classified by the handler of
  \<^verbatim>\<open>fetch_article\<close> that catches them, in the order of the handlers.
\<close>

datatype http_outcome =
    Response nat string
  | Timeout
  | SSLError string
  | ConnectionError string
  | OtherException py_exception

text \<open>
  What the browser part of \<^verbatim>\<open>fetch_with_playwright\<close> does: the navigation gives a
  response or none, and \<^verbatim>\<open>page.content()\<close> the rendered HTML; or something raises.
\<close>

datatype pw_outcome =
    Rendered "nat option" string
  | PwException py_exception

text \<open>
  The outside world. \<open>'n\<close> is the type of BeautifulSoup's nodes (the soup and its
  tags). \<open>requests_get\<close> and \<open>page_goto\<close> take the number of calls made before, so
  that a second attempt may be answered differently from the first.
  \<open>get_text n sep strp\<close> is \<^verbatim>\<open>n.get_text(separator=sep, strip=strp)\<close>;
  \<open>decompose soup el\<close> is the soup after \<^verbatim>\<open>el.decompose()\<close>.
\<close>

record 'n env =
  urlparse :: "string \<Rightarrow> py_exception + parse_result"
  parse_qs :: "string \<Rightarrow> string \<Rightarrow> string list option"
  requests_get :: "nat \<Rightarrow> string \<Rightarrow> nat \<Rightarrow> http_outcome"
  playwright_installed :: bool
  page_goto :: "nat \<Rightarrow> string \<Rightarrow> nat \<Rightarrow> pw_outcome"
  BeautifulSoup :: "string \<Rightarrow> 'n"
  soup_str :: "'n \<Rightarrow> string"
  soup_find :: "'n \<Rightarrow> string \<Rightarrow> 'n option"
  find_all :: "'n \<Rightarrow> string list \<Rightarrow> 'n list"
  select_one :: "'n \<Rightarrow> string \<Rightarrow> 'n option"
  get_text :: "'n \<Rightarrow> string \<Rightarrow> bool \<Rightarrow> string"
  decompose :: "'n \<Rightarrow> 'n \<Rightarrow> 'n"

text \<open>
  The state a call changes: how many HTTP requests and headless fetches have been made,
  the seconds slept, and the module's cached \<^verbatim>\<open>_playwright_available\<close> flag.
\<close>

record world =
  http_calls :: nat
  pw_calls :: nat
  slept :: nat
  playwright_available :: "bool option"

subsection \<open>Constants\<close>

definition DEFAULT_TIMEOUT :: nat where "DEFAULT_TIMEOUT = 30"

definition PLAYWRIGHT_TIMEOUT :: nat where "PLAYWRIGHT_TIMEOUT = 45000"

definition MAX_RETRIES :: nat where "MAX_RETRIES = 2"

definition RETRY_DELAY :: nat where "RETRY_DELAY = 2"

definition MIN_CONTENT_CHARS_FOR_SUCCESS :: nat where "MIN_CONTENT_CHARS_FOR_SUCCESS = 500"

definition JS_HEAVY_DOMAINS :: "string list" where
  "JS_HEAVY_DOMAINS =
     [''coindesk.com'', ''msn.com'', ''bloomberg.com'', ''forbes.com'', ''businessinsider.com'']"

subsection \<open>The small functions\<close>

definition check_playwright_available :: "'n env \<Rightarrow> world \<Rightarrow> bool \<times> world" where
  "check_playwright_available env w =
     (case playwright_available w of
        None \<Rightarrow> (playwright_installed env,
                  w\<lparr>playwright_available := Some (playwright_installed env)\<rparr>)
      | Some b \<Rightarrow> (b, w))"

definition is_js_heavy_domain :: "'n env \<Rightarrow> string \<Rightarrow> bool" where
  "is_js_heavy_domain env u =
     (case urlparse env u of
        Inl e \<Rightarrow> False
      | Inr parsed \<Rightarrow>
          (let dom = replace ''www.'' '''' (lower (netloc parsed))
           in list_ex (\<lambda>js_domain. contains js_domain dom) JS_HEAVY_DOMAINS))"

definition is_bloomberg_url :: "'n env \<Rightarrow> string \<Rightarrow> bool" where
  "is_bloomberg_url env u =
     (case urlparse env u of
        Inl e \<Rightarrow> False
      | Inr parsed \<Rightarrow> contains ''bloomberg.com'' (lower (netloc parsed)))"

definition bloomberg_reason :: "nat \<Rightarrow> nat \<Rightarrow> string" where
  "bloomberg_reason char_count word_count =
     ''Bloomberg content too short ('' @ str_nat char_count @ '' chars, ''
     @ str_nat word_count @ '' words) - may need manual review''"

definition handle_bloomberg_content :: "string \<Rightarrow> metadata \<Rightarrow> string \<times> metadata" where
  "handle_bloomberg_content content md =
     (let char_count = length content; word_count = length (split_ws content)
      in if char_count < 1000
         then (content,
               md\<lparr>partial_content := Some True,
                  partial_content_reason :=
                    Some (bloomberg_reason char_count word_count)\<rparr>)
         else (content, md))"

text \<open>
  \<^verbatim>\<open>query_params['url'][0]\<close> raises on an empty list; the function's handler turns every
  exception into \<open>None\<close>.
\<close>

definition extract_original_url_from_msn :: "'n env \<Rightarrow> string \<Rightarrow> string option" where
  "extract_original_url_from_msn env u =
     (case urlparse env u of
        Inl e \<Rightarrow> None
      | Inr parsed \<Rightarrow>
          if contains ''msn.com'' (lower (netloc parsed))
          then (case parse_qs env (query parsed) ''url'' of
                  Some vs \<Rightarrow> (case vs of [] \<Rightarrow> None | v # _ \<Rightarrow> Some v)
                | None \<Rightarrow>
                   (case parse_qs env (query parsed) ''originalUrl'' of
                      Some vs \<Rightarrow> (case vs of [] \<Rightarrow> None | v # _ \<Rightarrow> Some v)
                    | None \<Rightarrow> None))
          else None)"

definition count_words :: "string \<Rightarrow> nat" where
  "count_words text = length (split_ws text)"

definition extract_domain :: "'n env \<Rightarrow> string \<Rightarrow> string" where
  "extract_domain env u =
     (case urlparse env u of
        Inl e \<Rightarrow> ''''
      | Inr parsed \<Rightarrow> replace ''www.'' '''' (netloc parsed))"

subsection \<open>\<^verbatim>\<open>extract_content_from_html\<close>\<close>

text \<open>
  \<^verbatim>\<open>for selector in selectors: x = soup.select_one(selector); if x: ...; break\<close>:
  the first selector that matches anything decides.
\<close>

fun select_first :: "'n env \<Rightarrow> 'n \<Rightarrow> string list \<Rightarrow> 'n option" where
  "select_first env soup [] = None"
| "select_first env soup (selector # selectors) =
     (case select_one env soup selector of
        Some el \<Rightarrow> Some el
      | None \<Rightarrow> select_first env soup selectors)"

definition headline_selectors :: "string list" where
  \<open>headline_selectors =
     [''h1.headline'', ''h1.article-title'', ''h1.post-title'',
      ''h1[class*="headline"]'', ''h1[class*="title"]'',
      ''article h1'', ''.article-header h1'', ''h1'']\<close>

definition author_selectors :: "string list" where
  \<open>author_selectors =
     [''[class*="author"] a'', ''[class*="byline"]'',
      ''a[rel="author"]'', ''[class*="author-name"]'',
      ''span[class*="author"]'', ''.author'', ''.byline'']\<close>

definition content_selectors :: "string list" where
  \<open>content_selectors =
     [''article'', ''[class*="article-body"]'', ''[class*="article-content"]'',
      ''[class*="post-content"]'', ''[class*="entry-content"]'',
      ''[class*="story-body"]'', ''[class*="story-content"]'',
      ''[class*="main-content"]'', ''[class*="page-content"]'',
      ''.content'', ''main'', ''[role="main"]'']\<close>

definition unwanted_elements :: "string list" where
  "unwanted_elements =
     [''script'', ''style'', ''nav'', ''header'', ''footer'',
      ''aside'', ''iframe'', ''noscript'', ''form'']"

text \<open>
  \<^verbatim>\<open>re.sub(r'^(By|Written by|Author:)\s*', '', author_text, flags=re.IGNORECASE)\<close>:
  the alternatives are tried in order at the start of the text.
\<close>

definition strip_author_prefix :: "string \<Rightarrow> string" where
  "strip_author_prefix s =
     (if prefix ''by'' (lower s) then dropWhile is_space (drop 2 s)
      else if prefix ''written by'' (lower s) then dropWhile is_space (drop 10 s)
      else if prefix ''author:'' (lower s) then dropWhile is_space (drop 7 s)
      else s)"

text \<open>
  \<^verbatim>\<open>"\n\n".join([p.get_text().strip() for p in paragraphs if p.get_text().strip()])\<close>
\<close>

definition paragraphs_text :: "'n env \<Rightarrow> 'n list \<Rightarrow> string" where
  "paragraphs_text env paragraphs =
     join [CHR 0x0A, CHR 0x0A]
       (filter (\<lambda>t. t \<noteq> []) (map (\<lambda>p. strip (get_text env p '''' False)) paragraphs))"

text \<open>
  The loop over \<^verbatim>\<open>content_selectors\<close>: each selector that matches overwrites
  \<^verbatim>\<open>content\<close>; the loop stops at the first one that yields 100 words.
\<close>

fun content_loop :: "'n env \<Rightarrow> 'n \<Rightarrow> string list \<Rightarrow> string \<Rightarrow> string" where
  "content_loop env soup [] content = content"
| "content_loop env soup (selector # selectors) content =
     (case select_one env soup selector of
        None \<Rightarrow> content_loop env soup selectors content
      | Some article_elem \<Rightarrow>
          (let content' = paragraphs_text env (find_all env article_elem [''p''])
           in if length (split_ws content') \<ge> 100 then content'
              else content_loop env soup selectors content'))"

definition js_rendered_msg :: "nat \<Rightarrow> nat \<Rightarrow> string" where
  "js_rendered_msg script_count p_count =
     ''JavaScript-rendered page (React/Vue/etc.) - requires browser to access content (''
     @ str_nat script_count @ '' scripts, '' @ str_nat p_count @ '' paragraphs)''"

definition no_content_msg :: "nat \<Rightarrow> string" where
  "no_content_msg n = ''Page has no meaningful content (only '' @ str_nat n @ '' chars of text)''"

definition too_few_chars_msg :: "nat \<Rightarrow> string" where
  "too_few_chars_msg char_count =
     ''Content too short ('' @ str_nat char_count @ '' chars, need 200+)''"

definition too_few_words_msg :: "nat \<Rightarrow> string" where
  "too_few_words_msg word_count =
     ''Content too short ('' @ str_nat word_count @ '' words, need 50+)''"

text \<open>
  The function first fills in \<^verbatim>\<open>metadata["title"]\<close> and \<^verbatim>\<open>metadata["author"]\<close>
  (up to the author loop), then computes \<^verbatim>\<open>(success, content_or_error)\<close> from the soup
  alone. The model has one definition for each half and returns the metadata as well.
\<close>

definition read_title_author :: "'n env \<Rightarrow> 'n \<Rightarrow> metadata \<Rightarrow> metadata" where
  "read_title_author env soup md0 =
     (let md1 = (case soup_find env soup ''title'' of
                   Some title_tag \<Rightarrow> md0\<lparr>title := strip (get_text env title_tag '''' False)\<rparr>
                 | None \<Rightarrow> md0);
          md2 = (case select_first env soup headline_selectors of
                   Some headline \<Rightarrow> md1\<lparr>title := strip (get_text env headline '''' False)\<rparr>
                 | None \<Rightarrow> md1)
      in case select_first env soup author_selectors of
           Some a \<Rightarrow> md2\<lparr>author := strip_author_prefix (strip (get_text env a '''' False))\<rparr>
         | None \<Rightarrow> md2)"

text \<open>
  From the check for JavaScript-rendered pages, which the source runs before it removes
  the scripts, to the end. \<open>soup'\<close> is the soup after the unwanted elements were
  decomposed, one by one, in the order \<^verbatim>\<open>find_all\<close> listed them.
\<close>

definition extract_text :: "'n env \<Rightarrow> 'n \<Rightarrow> bool \<times> string" where
  "extract_text env soup =
     (let script_count = length (find_all env soup [''script'']);
          p_count = length (find_all env soup [''p''])
      in if script_count > 20 \<and> p_count < 3
            \<and> length (get_text env soup '' '' True) < 500
         then (False, js_rendered_msg script_count p_count)
         else
          (let soup' = fold (\<lambda>element s. decompose env s element)
                         (find_all env soup unwanted_elements) soup;
               all_text = get_text env soup' '' '' True
           in if length all_text < 100
              then (False, no_content_msg (length all_text))
              else
               (let content0 = content_loop env soup' content_selectors '''';
                    content = (if length (split_ws content0) < 100
                               then paragraphs_text env (find_all env soup' [''p''])
                               else content0);
                    char_count = length content;
                    word_count = length (split_ws content)
                in if char_count < 200 then (False, too_few_chars_msg char_count)
                   else if word_count < 50 then (False, too_few_words_msg word_count)
                   else (True, content))))"

definition extract_content_from_html ::
  "'n env \<Rightarrow> 'n \<Rightarrow> metadata \<Rightarrow> (bool \<times> string) \<times> metadata" where
  "extract_content_from_html env soup md0 =
     (extract_text env soup, read_title_author env soup md0)"

subsection \<open>\<^verbatim>\<open>fetch_with_playwright\<close>\<close>

text \<open>A fetch returns \<^verbatim>\<open>(success, content_or_error, metadata)\<close>.\<close>

type_synonym result = "bool \<times> string \<times> metadata"

text \<open>The dictionary both fetch functions start from; only \<^verbatim>\<open>fetch_method\<close> differs.\<close>

definition new_metadata :: "string \<Rightarrow> string \<Rightarrow> metadata" where
  "new_metadata u method =
     \<lparr>url = u, domain = '''', title = '''', author = '''', fetch_errors = [],
      http_status = None, fetch_method = method,
      partial_content = None, partial_content_reason = None\<rparr>"

text \<open>\<^verbatim>\<open>metadata["fetch_errors"].append(error_msg); return False, error_msg, metadata\<close>\<close>

definition pw_failed :: "string \<Rightarrow> metadata \<Rightarrow> world \<Rightarrow> result \<times> world" where
  "pw_failed error_msg md w =
     ((False, error_msg, md\<lparr>fetch_errors := fetch_errors md @ [error_msg]\<rparr>), w)"

definition playwright_error_msg :: "py_exception \<Rightarrow> string" where
  "playwright_error_msg e =
     ''Playwright error: '' @ exc_type e @ '': '' @ take 100 (exc_msg e)"

definition playwright_missing_msg :: string where
  "playwright_missing_msg = ''Playwright not installed - cannot use headless browser''"

definition page_status_msg :: "nat \<Rightarrow> string" where
  "page_status_msg status = ''HTTP '' @ str_nat status @ '' - Page returned error status''"

definition extraction_failed_msg :: "string \<Rightarrow> string" where
  "extraction_failed_msg content = ''Content extraction failed: '' @ content"

text \<open>
  Each call counts as one headless fetch in the world. \<^verbatim>\<open>urlparse\<close> raising is caught
  by the general handler, a missing Playwright by the \<^verbatim>\<open>ImportError\<close> handler.
\<close>

definition fetch_with_playwright ::
  "'n env \<Rightarrow> world \<Rightarrow> string \<Rightarrow> nat \<Rightarrow> result \<times> world" where
  "fetch_with_playwright env w0 u timeout =
     (let md0 = new_metadata u ''playwright'';
          w = w0\<lparr>pw_calls := pw_calls w0 + 1\<rparr>
      in case urlparse env u of
           Inl e \<Rightarrow> pw_failed (playwright_error_msg e) md0 w
         | Inr parsed_url \<Rightarrow>
            (let md1 = md0\<lparr>domain := replace ''www.'' '''' (netloc parsed_url)\<rparr>
             in if \<not> playwright_installed env
                then pw_failed playwright_missing_msg md1 w
                else
                 (case page_goto env (pw_calls w0) u timeout of
                    PwException e \<Rightarrow> pw_failed (playwright_error_msg e) md1 w
                  | Rendered response html_content \<Rightarrow>
                     (let md2 = (case response of
                                   Some status \<Rightarrow> md1\<lparr>http_status := Some status\<rparr>
                                 | None \<Rightarrow> md1)
                      in if (case response of Some status \<Rightarrow> status \<ge> 400 | None \<Rightarrow> False)
                         then pw_failed (page_status_msg (the response)) md2 w
                         else
                          (let soup = BeautifulSoup env html_content;
                               ((success, content), md3) =
                                  extract_content_from_html env soup md2
                           in if success then ((True, content, md3), w)
                              else pw_failed (extraction_failed_msg content) md3 w)))))"

subsection \<open>\<^verbatim>\<open>fetch_article\<close>: one attempt of the retry loop\<close>

text \<open>
  The local variables of \<^verbatim>\<open>fetch_article\<close> that the loop changes, and the world.
\<close>

record loop_state =
  all_errors :: "string list"
  meta :: metadata
  should_try_playwright :: bool
  playwright_reason :: string
  wld :: world

text \<open>
  How one pass through the loop body ends: at the next iteration (\<^verbatim>\<open>continue\<close>, or the
  end of the body or of an exception handler), at a \<^verbatim>\<open>break\<close>, or at a \<^verbatim>\<open>return\<close>.
  Each carries the local variables at that point; \<open>Return ok text s\<close> is
  \<^verbatim>\<open>return ok, text, metadata\<close> with the metadata of \<open>s\<close>.
\<close>

datatype step = Continue loop_state | Break loop_state | Return bool string loop_state

definition append_error :: "string \<Rightarrow> loop_state \<Rightarrow> loop_state" where
  "append_error error_msg s = s\<lparr>all_errors := all_errors s @ [error_msg]\<rparr>"

text \<open>\<^verbatim>\<open>time.sleep(RETRY_DELAY)\<close>\<close>

definition sleep_retry :: "loop_state \<Rightarrow> loop_state" where
  "sleep_retry s = s\<lparr>wld := (wld s)\<lparr>slept := slept (wld s) + RETRY_DELAY\<rparr>\<rparr>"

text \<open>
  \<^verbatim>\<open>should_try_playwright = True; playwright_reason = reason\<close>, on the way to a
  \<^verbatim>\<open>break\<close>.
\<close>

definition ask_playwright :: "string \<Rightarrow> loop_state \<Rightarrow> loop_state" where
  "ask_playwright reason s = s\<lparr>should_try_playwright := True, playwright_reason := reason\<rparr>"

text \<open>
  \<^verbatim>\<open>metadata["fetch_errors"] = all_errors; return False, error_msg, metadata\<close>
\<close>

definition return_failed :: "string \<Rightarrow> loop_state \<Rightarrow> step" where
  "return_failed error_msg s =
     Return False error_msg (s\<lparr>meta := (meta s)\<lparr>fetch_errors := all_errors s\<rparr>\<rparr>)"

text \<open>
  The pattern of the 403, 429, 5xx and empty-body branches: append the error; before the
  last attempt sleep and \<^verbatim>\<open>continue\<close>, at the last attempt return the failure.
\<close>

definition retry_or_fail :: "nat \<Rightarrow> string \<Rightarrow> loop_state \<Rightarrow> step" where
  "retry_or_fail attempt error_msg s =
     (let s' = append_error error_msg s
      in if attempt < MAX_RETRIES - 1 then Continue (sleep_retry s')
         else return_failed error_msg s')"

text \<open>
  The pattern of the four exception handlers: append the error; before the last attempt
  sleep and \<^verbatim>\<open>continue\<close>, at the last attempt the handler just ends.
\<close>

definition retry_or_pass :: "nat \<Rightarrow> string \<Rightarrow> loop_state \<Rightarrow> step" where
  "retry_or_pass attempt error_msg s =
     (let s' = append_error error_msg s
      in if attempt < MAX_RETRIES - 1 then Continue (sleep_retry s') else Continue s')"

definition paywall_indicators :: "string list" where
  "paywall_indicators =
     [''paywall'', ''subscribe-wall'', ''subscription-required'', ''premium-content'']"

text \<open>The first indicator that occurs in \<^verbatim>\<open>str(soup).lower()\<close>, if any.\<close>

definition detected_paywall :: "'n env \<Rightarrow> 'n \<Rightarrow> string option" where
  "detected_paywall env soup =
     find (\<lambda>indicator. contains indicator (lower (soup_str env soup))) paywall_indicators"

definition paywall_msg :: "string \<Rightarrow> string" where
  "paywall_msg indicator =
     ''Paywall detected ('' @ indicator @ '') - Content behind subscription''"

definition insufficient_content_msg :: "nat \<Rightarrow> string" where
  "insufficient_content_msg char_count =
     ''Requests fetch returned insufficient content: '' @ str_nat char_count @ '' chars''"

definition content_too_short_reason :: "nat \<Rightarrow> string" where
  "content_too_short_reason char_count =
     ''Content too short ('' @ str_nat char_count @ '' chars < ''
     @ str_nat MIN_CONTENT_CHARS_FOR_SUCCESS @ '')''"

definition js_heavy_thin_msg :: string where
  "js_heavy_thin_msg = ''JS-heavy domain returned thin content''"

definition js_heavy_thin_reason :: "nat \<Rightarrow> nat \<Rightarrow> string" where
  "js_heavy_thin_reason char_count word_count =
     ''JS-heavy domain with thin content ('' @ str_nat char_count @ '' chars, ''
     @ str_nat word_count @ '' words)''"

definition js_rendered_reason :: string where
  "js_rendered_reason = ''Detected JavaScript-rendered page''"

definition all_failed_reason :: string where
  "all_failed_reason = ''All request attempts failed''"

text \<open>
  From \<^verbatim>\<open>success, content = extract_content_from_html(soup, metadata)\<close> to the end
  of the \<^verbatim>\<open>try\<close> body: the extraction and what follows from its result.
\<close>

definition extract_and_decide ::
  "'n env \<Rightarrow> string \<Rightarrow> nat \<Rightarrow> 'n \<Rightarrow> loop_state \<Rightarrow> step" where
  "extract_and_decide env u attempt soup s =
     (let ((success, content), md) = extract_content_from_html env soup (meta s);
          s1 = s\<lparr>meta := md\<rparr>
      in if success then
          (let word_count = length (split_ws content);
               char_count = length content
           in if char_count < MIN_CONTENT_CHARS_FOR_SUCCESS then
                Break (ask_playwright (content_too_short_reason char_count)
                         (append_error (insufficient_content_msg char_count) s1))
              else if is_js_heavy_domain env u
                      \<and> (char_count < 1000 \<or> word_count < 200) then
                Break (ask_playwright (js_heavy_thin_reason char_count word_count)
                         (append_error js_heavy_thin_msg s1))
              else
               (let (content', md') =
                      (if is_bloomberg_url env u
                       then handle_bloomberg_content content md
                       else (content, md))
                in Return True content'
                     (s1\<lparr>meta := md'\<lparr>fetch_method := ''requests''\<rparr>\<rparr>)))
         else
          (let s2 = append_error (extraction_failed_msg content) s1
           in if contains ''JavaScript-rendered'' content
                 \<or> contains ''requires browser'' content then
                Break (ask_playwright js_rendered_reason s2)
              else if attempt < MAX_RETRIES - 1 then Continue (sleep_retry s2)
              else
                Break (ask_playwright all_failed_reason
                         (s2\<lparr>meta := (meta s2)\<lparr>fetch_errors := all_errors s2\<rparr>\<rparr>))))"

text \<open>
  From \<^verbatim>\<open>soup = BeautifulSoup(response.content, 'html.parser')\<close> on: the paywall
  check, before any extraction.
\<close>

definition parse_and_extract ::
  "'n env \<Rightarrow> string \<Rightarrow> nat \<Rightarrow> string \<Rightarrow> loop_state \<Rightarrow> step" where
  "parse_and_extract env u attempt body s =
     (let soup = BeautifulSoup env body;
          detected = detected_paywall env soup
      in if detected \<noteq> None \<and> length (find_all env soup [''p'']) < 5 then
           (let error_msg = paywall_msg (the detected)
            in return_failed error_msg (append_error error_msg s))
         else extract_and_decide env u attempt soup s)"

definition http_403_msg :: string where
  "http_403_msg = ''HTTP 403 Forbidden - Site is blocking access''"

definition http_404_msg :: string where
  "http_404_msg = ''HTTP 404 Not Found - Article does not exist''"

definition http_429_msg :: string where
  "http_429_msg = ''HTTP 429 Rate Limited - Too many requests''"

definition server_error_msg :: "nat \<Rightarrow> string" where
  "server_error_msg status_code = ''HTTP '' @ str_nat status_code @ '' Server Error''"

definition unexpected_status_msg :: "nat \<Rightarrow> string" where
  "unexpected_status_msg status_code =
     ''HTTP '' @ str_nat status_code @ '' - Unexpected status''"

definition empty_response_msg :: string where
  "empty_response_msg = ''Empty response - No content received''"

text \<open>
  What follows a response: the status checks in the source's order, the empty-body
  check, then parsing. A status other than 200 that no earlier branch took is recorded;
  before the last attempt it is retried, at the last attempt the body is processed
  all the same.
\<close>

definition on_response ::
  "'n env \<Rightarrow> string \<Rightarrow> nat \<Rightarrow> nat \<Rightarrow> string \<Rightarrow> loop_state \<Rightarrow> step" where
  "on_response env u attempt status_code body s =
     (if status_code = 403 then retry_or_fail attempt http_403_msg s
      else if status_code = 404 then return_failed http_404_msg (append_error http_404_msg s)
      else if status_code = 429 then retry_or_fail attempt http_429_msg s
      else if status_code \<ge> 500 then
        retry_or_fail attempt (server_error_msg status_code) s
      else if status_code \<noteq> 200 \<and> attempt < MAX_RETRIES - 1 then
        Continue (sleep_retry (append_error (unexpected_status_msg status_code) s))
      else
        (let s1 = (if status_code \<noteq> 200
                   then append_error (unexpected_status_msg status_code) s
                   else s)
         in if length body = 0 then retry_or_fail attempt empty_response_msg s1
            else parse_and_extract env u attempt body s1))"

definition timeout_msg :: "nat \<Rightarrow> string" where
  "timeout_msg timeout = ''Timeout after '' @ str_nat timeout @ ''s - Site too slow to respond''"

definition ssl_error_msg :: "string \<Rightarrow> string" where
  "ssl_error_msg e = ''SSL/TLS Error - Certificate problem: '' @ take 80 e"

definition connection_error_msg :: "string \<Rightarrow> string" where
  "connection_error_msg error_str =
     (if contains ''Name or service not known'' error_str
         \<or> contains ''getaddrinfo failed'' error_str
      then ''DNS Error - Domain not found''
      else if contains ''Connection refused'' error_str
      then ''Connection Refused - Server not accepting connections''
      else ''Connection Error: '' @ take 80 error_str)"

definition unexpected_error_msg :: "py_exception \<Rightarrow> string" where
  "unexpected_error_msg e =
     ''Unexpected Error ('' @ exc_type e @ ''): '' @ take 80 (exc_msg e)"

text \<open>
  \<^verbatim>\<open>response = requests.get(...)\<close>: one more HTTP call in the world.
\<close>

definition count_request :: "loop_state \<Rightarrow> loop_state" where
  "count_request s = s\<lparr>wld := (wld s)\<lparr>http_calls := http_calls (wld s) + 1\<rparr>\<rparr>"

text \<open>\<^verbatim>\<open>metadata["http_status"] = status_code\<close>\<close>

definition set_status :: "nat \<Rightarrow> loop_state \<Rightarrow> loop_state" where
  "set_status status_code s = s\<lparr>meta := (meta s)\<lparr>http_status := Some status_code\<rparr>\<rparr>"

text \<open>
  One pass through the loop body: the request, then the response branch or the handler
  of the exception raised.
\<close>

definition http_attempt ::
  "'n env \<Rightarrow> string \<Rightarrow> nat \<Rightarrow> nat \<Rightarrow> loop_state \<Rightarrow> step" where
  "http_attempt env u timeout attempt s =
     (case requests_get env (http_calls (wld s)) u timeout of
        Response status_code body \<Rightarrow>
          on_response env u attempt status_code body (set_status status_code (count_request s))
      | Timeout \<Rightarrow> retry_or_pass attempt (timeout_msg timeout) (count_request s)
      | SSLError e \<Rightarrow> retry_or_pass attempt (ssl_error_msg e) (count_request s)
      | ConnectionError error_str \<Rightarrow>
          retry_or_pass attempt (connection_error_msg error_str) (count_request s)
      | OtherException e \<Rightarrow>
          retry_or_pass attempt (unexpected_error_msg e) (count_request s))"

subsection \<open>\<^verbatim>\<open>fetch_article\<close>: the loop, the fallback, the whole function\<close>

text \<open>
  How \<^verbatim>\<open>for attempt in range(MAX_RETRIES)\<close> ends: the range ran out, a \<^verbatim>\<open>break\<close> left
  it, or the function returned from inside it.
\<close>

datatype loop_exit =
  Exhausted loop_state | Broke loop_state | Returned bool string loop_state

fun http_loop ::
  "'n env \<Rightarrow> string \<Rightarrow> nat \<Rightarrow> nat list \<Rightarrow> loop_state \<Rightarrow> loop_exit" where
  "http_loop env u timeout [] s = Exhausted s"
| "http_loop env u timeout (attempt # attempts) s =
     (case http_attempt env u timeout attempt s of
        Continue s' \<Rightarrow> http_loop env u timeout attempts s'
      | Break s' \<Rightarrow> Broke s'
      | Return ok text s' \<Rightarrow> Returned ok text s')"

text \<open>
  \<^verbatim>\<open>final_error = all_errors[-1] if all_errors else "Unknown error"\<close> and the last
  \<^verbatim>\<open>return\<close>, with \<^verbatim>\<open>metadata["fetch_errors"]\<close> set to the accumulated errors.
\<close>

definition unknown_error_msg :: string where
  "unknown_error_msg = ''Unknown error''"

definition final_failure :: "string list \<Rightarrow> metadata \<Rightarrow> world \<Rightarrow> result \<times> world" where
  "final_failure errors md w =
     ((False, (if errors \<noteq> [] then last errors else unknown_error_msg),
       md\<lparr>fetch_errors := errors\<rparr>), w)"

text \<open>
  After the loop. The headless tier runs only if the caller enabled it, the loop asked
  for it (\<^verbatim>\<open>should_try_playwright\<close>) and Playwright is available; the availability is
  looked up only when the first two hold. \<^verbatim>\<open>metadata.update(pw_metadata)\<close> overwrites
  the seven keys \<^verbatim>\<open>fetch_with_playwright\<close> sets and keeps the others.
\<close>

definition after_loop ::
  "'n env \<Rightarrow> string \<Rightarrow> bool \<Rightarrow> loop_state \<Rightarrow> result \<times> world" where
  "after_loop env u use_playwright_fallback s =
     (let md = (meta s)\<lparr>fetch_errors := all_errors s\<rparr>
      in if use_playwright_fallback \<and> should_try_playwright s then
          (let (available, w1) = check_playwright_available env (wld s)
           in if available then
               (let ((pw_success, pw_content, pw_metadata), w2) =
                      fetch_with_playwright env w1 u PLAYWRIGHT_TIMEOUT
                in if pw_success then
                    (let md1 = pw_metadata
                                 \<lparr>partial_content := partial_content md,
                                  partial_content_reason := partial_content_reason md\<rparr>;
                         md2 = md1\<lparr>fetch_method := ''playwright'',
                                   fetch_errors := all_errors s @ fetch_errors pw_metadata\<rparr>;
                         (pw_content', md3) =
                            (if is_bloomberg_url env u
                             then handle_bloomberg_content pw_content md2
                             else (pw_content, md2))
                     in ((True, pw_content', md3), w2))
                   else final_failure (all_errors s @ fetch_errors pw_metadata) md w2)
              else final_failure (all_errors s) md w1)
         else final_failure (all_errors s) md (wld s))"

text \<open>
  From \<^verbatim>\<open>all_errors = []\<close> to the last \<^verbatim>\<open>return\<close> of the \<^verbatim>\<open>try\<close> body: the HTTP tier
  on \<open>u\<close> itself, then the fallback. \<open>initial_state\<close> holds the locals as they are
  before the loop.
\<close>

definition initial_state :: "metadata \<Rightarrow> world \<Rightarrow> loop_state" where
  "initial_state md w =
     \<lparr>all_errors = [], meta = md, should_try_playwright = False,
      playwright_reason = '''', wld = w\<rparr>"

definition fetch_tiers ::
  "'n env \<Rightarrow> world \<Rightarrow> string \<Rightarrow> nat \<Rightarrow> bool \<Rightarrow> metadata \<Rightarrow> result \<times> world" where
  "fetch_tiers env w u timeout use_playwright_fallback md =
     (case http_loop env u timeout [0..<MAX_RETRIES] (initial_state md w) of
        Returned ok text s \<Rightarrow> ((ok, text, meta s), wld s)
      | Broke s \<Rightarrow> after_loop env u use_playwright_fallback s
      | Exhausted s \<Rightarrow> after_loop env u use_playwright_fallback s)"

text \<open>
  \<^verbatim>\<open>fetch_article(url, timeout, use_playwright_fallback)\<close>. For an msn.com URL that
  wraps an original URL the function first calls itself on the original URL (with the
  default \<^verbatim>\<open>use_playwright_fallback=True\<close>) and returns that result if it succeeded.
  Nothing bounds the chain of wrapped URLs, so the first argument bounds the depth of
  the calls: \<open>None\<close> says that the chain is longer than that. A URL that is not
  unwrapped needs depth 1. \<^verbatim>\<open>if original_url:\<close> is false for the empty string.
  \<^verbatim>\<open>urlparse\<close> raising is caught by the outer handler.
\<close>

definition fatal_error_msg :: "py_exception \<Rightarrow> string" where
  "fatal_error_msg e = ''Fatal Error ('' @ exc_type e @ ''): '' @ exc_msg e"

fun fetch_article ::
  "nat \<Rightarrow> 'n env \<Rightarrow> world \<Rightarrow> string \<Rightarrow> nat \<Rightarrow> bool \<Rightarrow> (result \<times> world) option" where
  "fetch_article 0 env w u timeout use_playwright_fallback = None"
| "fetch_article (Suc depth) env w u timeout use_playwright_fallback =
     (let md0 = new_metadata u ''requests''
      in case urlparse env u of
           Inl e \<Rightarrow>
             (let error_msg = fatal_error_msg e
              in Some ((False, error_msg, md0\<lparr>fetch_errors := [error_msg]\<rparr>), w))
         | Inr parsed_url \<Rightarrow>
            (let md = md0\<lparr>domain := replace ''www.'' '''' (netloc parsed_url)\<rparr>;
                 domain_lower = lower (netloc parsed_url);
                 original_url = (if contains ''msn.com'' domain_lower
                                 then extract_original_url_from_msn env u else None)
             in if original_url \<noteq> None \<and> original_url \<noteq> Some '''' then
                  (case fetch_article depth env w (the original_url) timeout True of
                     None \<Rightarrow> None
                   | Some (nested, w') \<Rightarrow>
                       if fst nested then Some (nested, w')
                       else Some (fetch_tiers env w' u timeout use_playwright_fallback md))
                else Some (fetch_tiers env w u timeout use_playwright_fallback md)))"

section \<open>A concrete outside world for the examples\<close>

text \<open>
  The theorems below hold for every environment. Their examples run in this one:
  documents without attributes as trees, BeautifulSoup's operations on them, and URLs
  of the shape \<^verbatim>\<open>scheme://host/path?query\<close>.
\<close>

datatype node = Text string | Tag string "node list"

fun descendants :: "node \<Rightarrow> node list" where
  "descendants (Text t) = []"
| "descendants (Tag name children) = concat (map (\<lambda>c. c # descendants c) children)"

fun has_name :: "string list \<Rightarrow> node \<Rightarrow> bool" where
  "has_name names (Text t) = False"
| "has_name names (Tag name children) = (name \<in> set names)"

definition dom_find_all :: "node \<Rightarrow> string list \<Rightarrow> node list" where
  "dom_find_all n names = filter (has_name names) (descendants n)"

definition dom_find :: "node \<Rightarrow> string \<Rightarrow> node option" where
  "dom_find n name = (case dom_find_all n [name] of [] \<Rightarrow> None | x # _ \<Rightarrow> Some x)"

text \<open>
  Without attributes no class or attribute selector matches. What is left of the
  selectors the module uses is a tag name, or two tag names for a descendant.
\<close>

definition dom_select_one :: "node \<Rightarrow> string \<Rightarrow> node option" where
  "dom_select_one n selector =
     (if CHR ''.'' \<in> set selector \<or> CHR ''['' \<in> set selector then None
      else case split_ws selector of
             [a] \<Rightarrow> dom_find n a
           | [a, b] \<Rightarrow>
               (case concat (map (\<lambda>x. dom_find_all x [b]) (dom_find_all n [a])) of
                  [] \<Rightarrow> None
                | x # _ \<Rightarrow> Some x)
           | _ \<Rightarrow> None)"

fun strings :: "node \<Rightarrow> string list" where
  "strings (Text t) = [t]"
| "strings (Tag name children) = concat (map strings children)"

definition dom_get_text :: "node \<Rightarrow> string \<Rightarrow> bool \<Rightarrow> string" where
  "dom_get_text n sep strp =
     join sep (if strp then filter (\<lambda>t. t \<noteq> []) (map strip (strings n)) else strings n)"

fun dom_decompose :: "node \<Rightarrow> node \<Rightarrow> node" where
  "dom_decompose (Text t) el = Text t"
| "dom_decompose (Tag name children) el =
     Tag name (map (\<lambda>c. dom_decompose c el) (filter (\<lambda>c. c \<noteq> el) children))"

text \<open>\<^verbatim>\<open>str(soup)\<close>; the soup itself is the node named \<^verbatim>\<open>[document]\<close>.\<close>

fun serialize :: "node \<Rightarrow> string" where
  "serialize (Text t) = t"
| "serialize (Tag name children) =
     (if name = ''[document]'' then concat (map serialize children)
      else ''<'' @ name @ ''>'' @ concat (map serialize children) @ ''</'' @ name @ ''>'')"

text \<open>Parsing, for the documents of an example: the document that serializes to the body.\<close>

definition parse_known :: "node list \<Rightarrow> string \<Rightarrow> node" where
  "parse_known pages body =
     (case find (\<lambda>d. serialize d = body) pages of
        Some d \<Rightarrow> d
      | None \<Rightarrow> Tag ''[document]'' [Text body])"

fun after_first :: "string \<Rightarrow> string \<Rightarrow> string option" where
  "after_first sep [] = (if sep = [] then Some [] else None)"
| "after_first sep (c # cs) =
     (if prefix sep (c # cs) then Some (drop (length sep) (c # cs)) else after_first sep cs)"

text \<open>
  \<^verbatim>\<open>urlparse\<close> on \<^verbatim>\<open>scheme://host/path?query#fragment\<close>. A host with an opening bracket
  and no closing one raises \<^verbatim>\<open>ValueError("Invalid IPv6 URL")\<close>.
\<close>

definition simple_urlparse :: "string \<Rightarrow> py_exception + parse_result" where
  "simple_urlparse u =
     (let rest = (case after_first ''://'' u of Some r \<Rightarrow> r | None \<Rightarrow> '''');
          host = takeWhile (\<lambda>c. c \<notin> set ''/?#'') rest;
          tail = takeWhile (\<lambda>c. c \<noteq> CHR ''#'') (dropWhile (\<lambda>c. c \<notin> set ''/?#'') rest)
      in if (CHR ''['' \<in> set host) \<noteq> (CHR '']'' \<in> set host)
         then Inl (PyException ''ValueError'' ''Invalid IPv6 URL'')
         else Inr \<lparr>netloc = host,
                   query = (case after_first ''?'' tail of Some q \<Rightarrow> q | None \<Rightarrow> '''')\<rparr>)"

fun split_on :: "char \<Rightarrow> string \<Rightarrow> string list" where
  "split_on d [] = [[]]"
| "split_on d (c # cs) =
     (if c = d then [] # split_on d cs
      else (case split_on d cs of x # xs \<Rightarrow> (c # x) # xs | [] \<Rightarrow> [[c]]))"

text \<open>
  \<^verbatim>\<open>parse_qs\<close> on a query without escapes: the non-blank values of a key, in order;
  a key with no such value is not in the dictionary.
\<close>

definition simple_parse_qs :: "string \<Rightarrow> string \<Rightarrow> string list option" where
  "simple_parse_qs q k =
     (let vs = filter (\<lambda>v. v \<noteq> [])
                 (map (\<lambda>pair. drop 1 (dropWhile (\<lambda>c. c \<noteq> CHR ''='') pair))
                    (filter (\<lambda>pair. takeWhile (\<lambda>c. c \<noteq> CHR ''='') pair = k)
                       (split_on CHR ''&'' q)))
      in if vs = [] then None else Some vs)"

definition example_env ::
  "(nat \<Rightarrow> string \<Rightarrow> nat \<Rightarrow> http_outcome) \<Rightarrow> bool \<Rightarrow> (nat \<Rightarrow> string \<Rightarrow> nat \<Rightarrow> pw_outcome)
   \<Rightarrow> node list \<Rightarrow> node env" where
  "example_env get installed goto pages =
     \<lparr>urlparse = simple_urlparse, parse_qs = simple_parse_qs, requests_get = get,
      playwright_installed = installed, page_goto = goto,
      BeautifulSoup = parse_known pages, soup_str = serialize, soup_find = dom_find,
      find_all = dom_find_all, select_one = dom_select_one, get_text = dom_get_text,
      decompose = dom_decompose\<rparr>"

text \<open>The world before anything happened.\<close>

definition world0 :: world where
  "world0 = \<lparr>http_calls = 0, pw_calls = 0, slept = 0, playwright_available = None\<rparr>"

text \<open>\<open>n\<close> words, \<open>6 * n - 1\<close> characters.\<close>

definition words :: "nat \<Rightarrow> string" where
  "words n = join '' '' (replicate n ''lorem'')"

text \<open>
  An article of three paragraphs of \<open>n\<close> words each. With 17 words a paragraph the
  extracted body has 51 words and 307 characters, with 28 words 84 words and 505
  characters.
\<close>

definition article_page :: "nat \<Rightarrow> node" where
  "article_page n =
     Tag ''[document]''
       [Tag ''html''
          [Tag ''head'' [Tag ''title'' [Text ''Budget'']],
           Tag ''body''
             [Tag ''h1'' [Text ''Budget approved''],
              Tag ''p'' [Text (words n)], Tag ''p'' [Text (words n)],
              Tag ''p'' [Text (words n)]]]]"

text \<open>A page that names a paywall and has two paragraphs.\<close>

definition paywall_page :: node where
  "paywall_page =
     Tag ''[document]''
       [Tag ''html''
          [Tag ''body''
             [Tag ''p'' [Text ''This story is behind our paywall.''],
              Tag ''p'' [Text ''Subscribe to go on reading.'']]]]"

text \<open>A single-page application: 25 scripts, one paragraph, little text.\<close>

definition app_page :: node where
  "app_page =
     Tag ''[document]''
       [Tag ''html''
          [Tag ''head'' (replicate 25 (Tag ''script'' [])),
           Tag ''body'' [Tag ''p'' [Text ''Loading the application'']]]]"

definition no_browser :: "nat \<Rightarrow> string \<Rightarrow> nat \<Rightarrow> pw_outcome" where
  "no_browser i u timeout = PwException (PyException ''Error'' ''browser closed'')"

section \<open>Reading the outcome of a step\<close>

text \<open>The local variables at the point where a pass through the loop body, or the loop, ended.\<close>

fun step_state :: "step \<Rightarrow> loop_state" where
  "step_state (Continue s) = s"
| "step_state (Break s) = s"
| "step_state (Return ok text s) = s"

fun exit_state :: "loop_exit \<Rightarrow> loop_state" where
  "exit_state (Exhausted s) = s"
| "exit_state (Broke s) = s"
| "exit_state (Returned ok text s) = s"

text \<open>The parts of a fetch's result.\<close>

definition succeeded :: "result \<times> world \<Rightarrow> bool" where
  "succeeded r = fst (fst r)"


definition metadata_of :: "result \<times> world \<Rightarrow> metadata" where
  "metadata_of r = snd (snd (fst r))"

definition world_of :: "result \<times> world \<Rightarrow> world" where
  "world_of r = snd r"

text \<open>
  What no pass through the loop body changes: the errors accumulated so far stay at the
  front of the accumulator, the headless tier and the cached flag are untouched, no
  request is taken back, and the metadata keeps its URL and domain.
\<close>

definition extends :: "loop_state \<Rightarrow> loop_state \<Rightarrow> bool" where
  "extends s s' =
     (prefix (all_errors s) (all_errors s')
      \<and> pw_calls (wld s') = pw_calls (wld s)
      \<and> playwright_available (wld s') = playwright_available (wld s)
      \<and> http_calls (wld s) \<le> http_calls (wld s')
      \<and> domain (meta s') = domain (meta s)
      \<and> url (meta s') = url (meta s))"

section \<open>What the loop keeps\<close>

lemma read_title_author_keeps:
  "domain (read_title_author env soup md) = domain md"
  "url (read_title_author env soup md) = url md"
  "fetch_errors (read_title_author env soup md) = fetch_errors md"
  "http_status (read_title_author env soup md) = http_status md"
  "fetch_method (read_title_author env soup md) = fetch_method md"
  "partial_content (read_title_author env soup md) = partial_content md"
  "partial_content_reason (read_title_author env soup md) = partial_content_reason md"
  by (simp_all add: read_title_author_def Let_def split: option.splits)

lemma extract_keeps:
  assumes "extract_content_from_html env soup md = (r, md')"
  shows "domain md' = domain md \<and> url md' = url md \<and> fetch_errors md' = fetch_errors md
         \<and> http_status md' = http_status md \<and> fetch_method md' = fetch_method md
         \<and> partial_content md' = partial_content md
         \<and> partial_content_reason md' = partial_content_reason md"
proof -
  have "md' = read_title_author env soup md"
    using assms by (simp add: extract_content_from_html_def)
  then show ?thesis
    by (simp add: read_title_author_keeps)
qed

lemma extends_refl: "extends s s"
  by (simp add: extends_def)

lemma extends_trans: "extends s s' \<Longrightarrow> extends s' s'' \<Longrightarrow> extends s s''"
  by (auto simp: extends_def)

lemma extends_append_error: "extends s (append_error m s)"
  by (simp add: extends_def append_error_def)

lemma extends_sleep_retry: "extends s (sleep_retry s)"
  by (simp add: extends_def sleep_retry_def)

lemma extends_ask_playwright: "extends s (ask_playwright r s)"
  by (simp add: extends_def ask_playwright_def)

lemma extends_count_request: "extends s (count_request s)"
  by (simp add: extends_def count_request_def)

lemma extends_set_status: "extends s (set_status st s)"
  by (simp add: extends_def set_status_def)

lemma extends_return_failed: "extends s (step_state (return_failed m s))"
  by (simp add: extends_def return_failed_def)

lemma extends_retry_or_fail: "extends s (step_state (retry_or_fail attempt m s))"
  unfolding retry_or_fail_def Let_def
  using extends_trans [OF extends_append_error extends_sleep_retry]
        extends_trans [OF extends_append_error extends_return_failed]
  by simp

lemma extends_retry_or_pass: "extends s (step_state (retry_or_pass attempt m s))"
  unfolding retry_or_pass_def Let_def
  using extends_trans [OF extends_append_error extends_sleep_retry] extends_append_error
  by simp

lemma extends_extract_and_decide:
  "extends s (step_state (extract_and_decide env u attempt soup s))"
proof -
  obtain ok content md where e: "extract_content_from_html env soup (meta s) = ((ok, content), md)"
    by (metis prod.exhaust)
  from extract_keeps [OF e] have k: "domain md = domain (meta s)" "url md = url (meta s)"
    by simp_all
  show ?thesis
    by (simp add: extract_and_decide_def e k extends_def append_error_def sleep_retry_def
        ask_playwright_def handle_bloomberg_content_def Let_def)
qed

lemma extends_parse_and_extract:
  "extends s (step_state (parse_and_extract env u attempt body s))"
  unfolding parse_and_extract_def Let_def
  by (simp add: extends_extract_and_decide
        extends_trans [OF extends_append_error extends_return_failed])

lemma extends_on_response:
  "extends s (step_state (on_response env u attempt status_code body s))"
  unfolding on_response_def Let_def
  by (simp add: extends_retry_or_fail extends_parse_and_extract
        extends_trans [OF extends_append_error extends_return_failed]
        extends_trans [OF extends_append_error extends_sleep_retry]
        extends_trans [OF extends_append_error extends_retry_or_fail]
        extends_trans [OF extends_append_error extends_parse_and_extract])

lemma extends_http_attempt:
  "extends s (step_state (http_attempt env u timeout attempt s))"
proof -
  have a: "extends s (step_state (retry_or_pass attempt m (count_request s)))" for m
    using extends_trans [OF extends_count_request extends_retry_or_pass] .
  have b: "extends s (step_state (on_response env u attempt st body
             (set_status st (count_request s))))" for st body
    using extends_trans [OF extends_trans [OF extends_count_request extends_set_status]
            extends_on_response] .
  show ?thesis
    unfolding http_attempt_def
    by (simp add: a b split: http_outcome.splits)
qed

lemma extends_http_loop:
  "extends s (exit_state (http_loop env u timeout attempts s))"
proof (induction attempts arbitrary: s)
  case Nil
  show ?case by (simp add: extends_refl)
next
  case (Cons attempt attempts)
  show ?case
  proof (cases "http_attempt env u timeout attempt s")
    case (Continue s')
    with extends_http_attempt [of s env u timeout attempt] have "extends s s'" by simp
    with Cons.IH [of s'] Continue show ?thesis by (auto intro: extends_trans)
  next
    case (Break s')
    with extends_http_attempt [of s env u timeout attempt] show ?thesis by simp
  next
    case (Return ok msg s')
    with extends_http_attempt [of s env u timeout attempt] show ?thesis by simp
  qed
qed

lemma retry_or_fail_flag:
  "retry_or_fail attempt m s = Continue s' \<Longrightarrow> should_try_playwright s' = should_try_playwright s"
  by (auto simp: retry_or_fail_def return_failed_def append_error_def sleep_retry_def Let_def
      split: if_splits)

lemma retry_or_pass_flag:
  "retry_or_pass attempt m s = Continue s' \<Longrightarrow> should_try_playwright s' = should_try_playwright s"
  by (auto simp: retry_or_pass_def append_error_def sleep_retry_def Let_def split: if_splits)

lemma extract_and_decide_flag:
  "extract_and_decide env u attempt soup s = Continue s'
   \<Longrightarrow> should_try_playwright s' = should_try_playwright s"
  by (auto simp: extract_and_decide_def append_error_def sleep_retry_def Let_def
      split: prod.splits if_splits)

lemma parse_and_extract_flag:
  "parse_and_extract env u attempt body s = Continue s'
   \<Longrightarrow> should_try_playwright s' = should_try_playwright s"
  by (auto simp: parse_and_extract_def return_failed_def Let_def
      dest: extract_and_decide_flag split: if_splits)

lemma on_response_flag:
  "on_response env u attempt status_code body s = Continue s'
   \<Longrightarrow> should_try_playwright s' = should_try_playwright s"
  by (auto simp: on_response_def return_failed_def append_error_def sleep_retry_def Let_def
      dest!: retry_or_fail_flag parse_and_extract_flag split: if_splits)

lemma http_attempt_flag:
  "http_attempt env u timeout attempt s = Continue s'
   \<Longrightarrow> should_try_playwright s' = should_try_playwright s"
  by (auto simp: http_attempt_def count_request_def set_status_def
      dest!: retry_or_pass_flag on_response_flag split: http_outcome.splits)

lemma http_loop_exhausted_flag:
  "http_loop env u timeout attempts s = Exhausted s'
   \<Longrightarrow> should_try_playwright s' = should_try_playwright s"
proof (induction attempts arbitrary: s)
  case Nil
  then show ?case by simp
next
  case (Cons attempt attempts)
  then show ?case
    by (cases "http_attempt env u timeout attempt s") (auto dest: http_attempt_flag)
qed

lemma http_loop_append:
  "http_loop env u timeout (xs @ ys) s =
     (case http_loop env u timeout xs s of
        Exhausted s' \<Rightarrow> http_loop env u timeout ys s'
      | Broke s' \<Rightarrow> Broke s'
      | Returned ok msg s' \<Rightarrow> Returned ok msg s')"
  by (induction xs arbitrary: s) (auto split: step.splits)

lemma attempts_range: "[0..<MAX_RETRIES] = [0, 1]"
  by (simp add: MAX_RETRIES_def upt_rec)

lemma initial_state_simps [simp]:
  "all_errors (initial_state md w) = []"
  "meta (initial_state md w) = md"
  "wld (initial_state md w) = w"
  "should_try_playwright (initial_state md w) = False"
  by (simp_all add: initial_state_def)

lemma fetch_tiers_at:
  assumes "[0..<MAX_RETRIES] = before @ attempt # later"
    and "http_loop env u timeout before (initial_state md w) = Exhausted s"
    and "http_attempt env u timeout attempt s = Return ok msg s'"
  shows "fetch_tiers env w u timeout upf md = ((ok, msg, meta s'), wld s')"
  using assms by (simp add: fetch_tiers_def http_loop_append)

lemma reach_pw_calls:
  assumes "http_loop env u timeout before (initial_state md w) = Exhausted s"
  shows "pw_calls (wld s) = pw_calls w"
  using extends_http_loop [of "initial_state md w" env u timeout before] assms
  by (simp add: extends_def)

lemma after_loop_errors:
  "prefix (all_errors s) (fetch_errors (metadata_of (after_loop env u upf s)))"
  by (auto simp: after_loop_def final_failure_def metadata_of_def handle_bloomberg_content_def
      Let_def split: prod.splits)

lemma prefix_www_split:
  assumes "prefix ''www.'' (a @ ''www.'' @ b)" and "a \<noteq> []"
  shows "prefix ''www.'' a"
proof -
  consider (one) c1 where "a = [c1]"
    | (two) c1 c2 where "a = [c1, c2]"
    | (three) c1 c2 c3 where "a = [c1, c2, c3]"
    | (more) c1 c2 c3 c4 r where "a = c1 # c2 # c3 # c4 # r"
    using assms(2) by (cases a; cases "tl a"; cases "tl (tl a)"; cases "tl (tl (tl a))") auto
  then show ?thesis
    using assms(1) by cases auto
qed

lemma replace_no_prefix:
  "\<not> prefix old (c # cs) \<Longrightarrow> replace old new (c # cs) = c # replace old new cs"
  by simp

lemma replace_www_skips:
  "\<not> contains ''www.'' a \<Longrightarrow> replace ''www.'' '''' (a @ ''www.'' @ b) = a @ replace ''www.'' '''' b"
proof (induction a)
  case Nil
  show ?case by simp
next
  case (Cons c cs)
  from Cons.prems have np: "\<not> prefix ''www.'' (c # cs)" and nc: "\<not> contains ''www.'' cs"
    by simp_all
  have np2: "\<not> prefix ''www.'' (c # (cs @ ''www.'' @ b))"
    using prefix_www_split [of "c # cs" b] np by (simp only: append_Cons) blast
  have "replace ''www.'' '''' ((c # cs) @ ''www.'' @ b)
          = replace ''www.'' '''' (c # (cs @ ''www.'' @ b))"
    by (simp only: append_Cons)
  also have "\<dots> = c # replace ''www.'' '''' (cs @ ''www.'' @ b)"
    by (rule replace_no_prefix [OF np2])
  also have "\<dots> = c # (cs @ replace ''www.'' '''' b)"
    by (simp only: Cons.IH [OF nc])
  finally show ?case by (simp only: append_Cons)
qed

lemma fetch_with_playwright_domain:
  assumes "urlparse env u = Inr p"
  shows "domain (metadata_of (fetch_with_playwright env w u timeout)) = replace ''www.'' '''' (netloc p)"
proof -
  have k: "domain (snd (extract_content_from_html env soup md)) = domain md" for soup md
    by (simp add: extract_content_from_html_def read_title_author_keeps)
  show ?thesis
    using assms
    by (auto simp: fetch_with_playwright_def pw_failed_def metadata_of_def new_metadata_def
        Let_def k [unfolded snd_def] dest: extract_keeps
        split: pw_outcome.splits option.splits prod.splits)
qed

lemma after_loop_domain:
  assumes "urlparse env u = Inr p" and "domain (meta s) = replace ''www.'' '''' (netloc p)"
  shows "domain (metadata_of (after_loop env u upf s)) = replace ''www.'' '''' (netloc p)"
proof -
  have k: "domain m = replace ''www.'' '''' (netloc p)"
    if "fetch_with_playwright env w1 u t = ((ok, c, m), w2)" for w1 t ok c m w2
    using fetch_with_playwright_domain [OF assms(1), of w1 t] that
    by (simp add: metadata_of_def)
  show ?thesis
    using assms(2)
    by (auto simp: after_loop_def final_failure_def metadata_of_def
        handle_bloomberg_content_def Let_def dest: k split: prod.splits)
qed

lemma fetch_tiers_domain:
  assumes "urlparse env u = Inr p" and "domain md = replace ''www.'' '''' (netloc p)"
  shows "domain (metadata_of (fetch_tiers env w u timeout upf md)) = replace ''www.'' '''' (netloc p)"
proof -
  let ?x = "http_loop env u timeout [0..<MAX_RETRIES] (initial_state md w)"
  have d: "domain (meta (exit_state ?x)) = replace ''www.'' '''' (netloc p)"
    using extends_http_loop [of "initial_state md w" env u timeout "[0..<MAX_RETRIES]"] assms(2)
    by (simp add: extends_def)
  show ?thesis
  proof (cases ?x)
    case (Exhausted s)
    with d after_loop_domain [OF assms(1), of s upf] show ?thesis
      by (simp add: fetch_tiers_def)
  next
    case (Broke s)
    with d after_loop_domain [OF assms(1), of s upf] show ?thesis
      by (simp add: fetch_tiers_def)
  next
    case (Returned ok msg s)
    with d show ?thesis
      by (simp add: fetch_tiers_def metadata_of_def)
  qed
qed

lemma fetch_article_direct:
  assumes "extract_original_url_from_msn env u = None" and "urlparse env u = Inr p"
  shows "fetch_article (Suc depth) env w u timeout upf =
           Some (fetch_tiers env w u timeout upf
                   ((new_metadata u ''requests'')\<lparr>domain := replace ''www.'' '''' (netloc p)\<rparr>))"
  using assms by (simp add: Let_def)

lemma direct_fetch_domain:
  assumes "extract_original_url_from_msn env u = None"
    and "fetch_article depth env w u timeout upf = Some r"
  shows "domain (metadata_of r) = extract_domain env u"
proof -
  from assms(2) obtain d where d: "depth = Suc d" by (cases depth) auto
  show ?thesis
  proof (cases "urlparse env u")
    case (Inl e')
    with assms d show ?thesis
      by (auto simp: Let_def metadata_of_def new_metadata_def extract_domain_def)
  next
    case (Inr q)
    from fetch_article_direct [OF assms(1) Inr, of d w timeout upf] assms(2) d
    have "r = fetch_tiers env w u timeout upf
                ((new_metadata u ''requests'')\<lparr>domain := replace ''www.'' '''' (netloc q)\<rparr>)"
      by simp
    with fetch_tiers_domain [OF Inr, of _ w timeout upf] Inr
    show ?thesis by (simp add: extract_domain_def)
  qed
qed

lemma unwrap_needs_msn:
  assumes "extract_original_url_from_msn env u = Some x"
  shows "\<exists>p. urlparse env u = Inr p \<and> contains ''msn.com'' (lower (netloc p))"
  using assms
  by (auto simp: extract_original_url_from_msn_def split: sum.splits if_splits)

lemma unwrap_returns_nested:
  assumes "extract_original_url_from_msn env u = Some x" and "x \<noteq> ''''"
    and "fetch_article depth env w x timeout True = Some r" and "succeeded r"
  shows "fetch_article (Suc depth) env w u timeout upf = Some r"
proof -
  from unwrap_needs_msn [OF assms(1)] obtain p where
    p: "urlparse env u = Inr p" "contains ''msn.com'' (lower (netloc p))" by blast
  obtain nested w' where r: "r = (nested, w')" by (cases r)
  with assms(4) have "fst nested" by (simp add: succeeded_def)
  with p assms(1,2,3) r show ?thesis
    by (simp add: Let_def)
qed

lemma fetch_article_unwrapping:
  assumes "urlparse env u = Inr p"
    and "(if contains ''msn.com'' (lower (netloc p))
          then extract_original_url_from_msn env u else None) = Some x"
    and "x \<noteq> ''''"
  shows "fetch_article (Suc depth) env w u timeout upf =
           (case fetch_article depth env w x timeout True of
              None \<Rightarrow> None
            | Some (nested, w') \<Rightarrow>
                if fst nested then Some (nested, w')
                else Some (fetch_tiers env w' u timeout upf
                       ((new_metadata u ''requests'')
                          \<lparr>domain := replace ''www.'' '''' (netloc p)\<rparr>)))"
  using assms by (simp add: Let_def)

lemma fetch_article_not_unwrapping:
  assumes "urlparse env u = Inr p"
    and "(if contains ''msn.com'' (lower (netloc p))
          then extract_original_url_from_msn env u else None) \<in> {None, Some ''''}"
  shows "fetch_article (Suc depth) env w u timeout upf =
           Some (fetch_tiers env w u timeout upf
                   ((new_metadata u ''requests'')\<lparr>domain := replace ''www.'' '''' (netloc p)\<rparr>))"
  using assms by (auto simp: Let_def)

lemma fetch_article_raising:
  assumes "urlparse env u = Inl e"
  shows "fetch_article (Suc depth) env w u timeout upf =
           Some ((False, fatal_error_msg e,
                  (new_metadata u ''requests'')\<lparr>fetch_errors := [fatal_error_msg e]\<rparr>), w)"
  using assms by (simp add: Let_def)

lemma fetch_article_deeper:
  "fetch_article depth env w u timeout upf = Some r
   \<Longrightarrow> fetch_article (Suc depth) env w u timeout upf = Some r"
proof (induction depth arbitrary: w u upf r)
  case 0
  then show ?case by simp
next
  case (Suc depth)
  show ?case
  proof (cases "urlparse env u")
    case (Inl e)
    from Suc.prems show ?thesis
      by (simp only: fetch_article_raising [OF Inl])
  next
    case (Inr p)
    let ?o = "if contains ''msn.com'' (lower (netloc p))
              then extract_original_url_from_msn env u else None"
    show ?thesis
    proof (cases "?o \<in> {None, Some ''''}")
      case True
      from Suc.prems show ?thesis
        by (simp only: fetch_article_not_unwrapping [OF Inr True])
    next
      case False
      then obtain x where x: "?o = Some x" "x \<noteq> ''''" by auto
      from Suc.prems obtain n where
        n: "fetch_article depth env w x timeout True = Some n"
        by (auto simp only: fetch_article_unwrapping [OF Inr x] split: option.splits)
      from Suc.IH [OF n] have n': "fetch_article (Suc depth) env w x timeout True = Some n" .
      from Suc.prems show ?thesis
        by (simp only: fetch_article_unwrapping [OF Inr x] n n')
    qed
  qed
qed

lemma fetch_article_depth_mono:
  assumes "fetch_article depth env w u timeout upf = Some r" and "depth \<le> depth'"
  shows "fetch_article depth' env w u timeout upf = Some r"
  using assms(2,1)
proof (induction rule: dec_induct)
  case base
  then show ?case .
next
  case (step n)
  from step.IH [OF step.prems] show ?case by (rule fetch_article_deeper)
qed

lemma contains_set: "contains sub s \<Longrightarrow> set sub \<subseteq> set s"
proof (induction s)
  case Nil
  then show ?case by simp
next
  case (Cons c cs)
  from Cons.prems have "prefix sub (c # cs) \<or> contains sub cs" by simp
  then show ?case
  proof
    assume "prefix sub (c # cs)"
    then show ?thesis by (rule set_mono_prefix)
  next
    assume "contains sub cs"
    from Cons.IH [OF this] show ?thesis by auto
  qed
qed

lemma lower_char_w: "lower_char c = CHR ''w'' \<Longrightarrow> c = CHR ''w'' \<or> c = CHR ''W''"
  by (auto simp: lower_char_def split: if_splits)

lemma lower_char_q: "lower_char c = CHR ''q'' \<Longrightarrow> c = CHR ''q'' \<or> c = CHR ''Q''"
  by (auto simp: lower_char_def split: if_splits)

lemma lower_char_dash: "lower_char c = CHR ''-'' \<Longrightarrow> c = CHR ''-''"
  by (auto simp: lower_char_def split: if_splits)

lemma no_paywall_marker:
  assumes "set ''wWqQ-'' \<inter> set (soup_str env soup) = {}"
  shows "detected_paywall env soup = None"
proof -
  have "\<not> contains i (lower (soup_str env soup))" if "i \<in> set paywall_indicators" for i
  proof
    assume "contains i (lower (soup_str env soup))"
    from contains_set [OF this] that
    have "CHR ''w'' \<in> lower_char ` set (soup_str env soup)
        \<or> CHR ''q'' \<in> lower_char ` set (soup_str env soup)
        \<or> CHR ''-'' \<in> lower_char ` set (soup_str env soup)"
      by (auto simp: paywall_indicators_def lower_def)
    with assms show False
      by (auto dest!: sym [THEN lower_char_w] sym [THEN lower_char_q] sym [THEN lower_char_dash])
  qed
  then show ?thesis
    by (simp add: detected_paywall_def find_None_iff)
qed







lemma http_attempt_success:
  assumes "requests_get env (http_calls (wld s)) u timeout = Response 200 body"
    and "body \<noteq> []"
    and "\<not> (detected_paywall env (BeautifulSoup env body) \<noteq> None
            \<and> length (find_all env (BeautifulSoup env body) [''p'']) < 5)"
    and "extract_text env (BeautifulSoup env body) = (True, content)"
    and "\<not> length content < MIN_CONTENT_CHARS_FOR_SUCCESS"
    and "\<not> is_js_heavy_domain env u"
    and "\<not> is_bloomberg_url env u"
  shows "http_attempt env u timeout attempt s =
           Return True content
             (s\<lparr>wld := (wld s)\<lparr>http_calls := http_calls (wld s) + 1\<rparr>,
                meta := (read_title_author env (BeautifulSoup env body)
                           ((meta s)\<lparr>http_status := Some 200\<rparr>))
                        \<lparr>fetch_method := ''requests''\<rparr>\<rparr>)"
  using assms
  by (auto simp: http_attempt_def on_response_def parse_and_extract_def extract_and_decide_def
      extract_content_from_html_def count_request_def set_status_def Let_def)


subsection \<open>Facts about the example world\<close>

lemma example_env_simps [simp]:
  "urlparse (example_env g i p pages) = simple_urlparse"
  "parse_qs (example_env g i p pages) = simple_parse_qs"
  "requests_get (example_env g i p pages) = g"
  "playwright_installed (example_env g i p pages) = i"
  "page_goto (example_env g i p pages) = p"
  "BeautifulSoup (example_env g i p pages) = parse_known pages"
  "soup_str (example_env g i p pages) = serialize"
  "find_all (example_env g i p pages) = dom_find_all"
  by (simp_all add: example_env_def)

lemma parse_known_single [simp]: "parse_known [d] (serialize d) = d"
  by (simp add: parse_known_def)

lemma article_page_body [simp]: "serialize (article_page n) \<noteq> []"
  by (simp add: article_page_def)

lemma article_page_paragraphs: "length (dom_find_all (article_page n) [''p'']) = 3"
  by (simp add: article_page_def dom_find_all_def)


lemma full_page_no_marker: "set ''wWqQ-'' \<inter> set (serialize (article_page 28)) = {}"
  by code_simp


lemma full_page_text:
  "(case extract_text (example_env g i p pages) (article_page 28) of
      (ok, c) \<Rightarrow> ok \<and> length c = 505 \<and> length (split_ws c) = 84)"
  by code_simp

lemma example_story_url:
  "simple_urlparse ''https://example.com/story'' = Inr \<lparr>netloc = ''example.com'', query = ''''\<rparr>"
  by code_simp

lemma example_story_plain:
  "\<not> is_js_heavy_domain (example_env g i p pages) ''https://example.com/story''"
  "\<not> is_bloomberg_url (example_env g i p pages) ''https://example.com/story''"
  "extract_original_url_from_msn (example_env g i p pages) ''https://example.com/story'' = None"
  by (simp_all add: is_js_heavy_domain_def is_bloomberg_url_def extract_original_url_from_msn_def
      example_story_url JS_HEAVY_DOMAINS_def lower_def lower_char_def)

lemma first_attempt:
  "[0..<MAX_RETRIES] = [] @ 0 # [1]"
  "http_loop env u timeout [] (initial_state md w) = Exhausted (initial_state md w)"
  by (simp_all add: attempts_range)

lemma example_story_fetch:
  "fetch_article 1 (example_env g i p pages) w ''https://example.com/story'' timeout upf =
     Some (fetch_tiers (example_env g i p pages) w ''https://example.com/story'' timeout upf
             ((new_metadata ''https://example.com/story'' ''requests'')
                \<lparr>domain := ''example.com''\<rparr>))"
proof -
  have "urlparse (example_env g i p pages) ''https://example.com/story''
          = Inr \<lparr>netloc = ''example.com'', query = ''''\<rparr>"
    by (simp add: example_story_url)
  from fetch_article_direct [OF example_story_plain(3) this, of 0 w timeout upf]
  show ?thesis by simp
qed

lemma example_full_page:
  fixes g i p
  defines "env \<equiv> example_env g i p [article_page 28]"
  shows "\<exists>c. extract_text env (BeautifulSoup env (serialize (article_page 28))) = (True, c)
           \<and> length c = 505 \<and> length (split_ws c) = 84"
    and "\<not> (detected_paywall env (BeautifulSoup env (serialize (article_page 28))) \<noteq> None
            \<and> length (find_all env (BeautifulSoup env (serialize (article_page 28))) [''p'']) < 5)"
proof -
  show "\<exists>c. extract_text env (BeautifulSoup env (serialize (article_page 28))) = (True, c)
           \<and> length c = 505 \<and> length (split_ws c) = 84"
    using full_page_text [of g i p "[article_page 28]"]
    by (cases "extract_text env (article_page 28)") (auto simp: env_def)
  show "\<not> (detected_paywall env (BeautifulSoup env (serialize (article_page 28))) \<noteq> None
            \<and> length (find_all env (BeautifulSoup env (serialize (article_page 28))) [''p'']) < 5)"
    using no_paywall_marker [of env "article_page 28"] full_page_no_marker
    by (simp add: env_def)
qed

lemma example_full_attempt:
  fixes g i p
  defines "env \<equiv> example_env g i p [article_page 28]"
  assumes "g (http_calls (wld s)) ''https://example.com/story'' timeout
             = Response 200 (serialize (article_page 28))"
  shows "\<exists>c. http_attempt env ''https://example.com/story'' timeout attempt s =
           Return True c
             (s\<lparr>wld := (wld s)\<lparr>http_calls := http_calls (wld s) + 1\<rparr>,
                meta := (read_title_author env (article_page 28)
                           ((meta s)\<lparr>http_status := Some 200\<rparr>))
                        \<lparr>fetch_method := ''requests''\<rparr>\<rparr>)
           \<and> length c = 505"
proof -
  from example_full_page(1) [of g i p] obtain c where
    c: "extract_text env (BeautifulSoup env (serialize (article_page 28))) = (True, c)"
       "length c = 505"
    unfolding env_def by blast
  have r: "requests_get env (http_calls (wld s)) ''https://example.com/story'' timeout
             = Response 200 (serialize (article_page 28))"
    using assms(2) by (simp add: env_def)
  have big: "\<not> length c < MIN_CONTENT_CHARS_FOR_SUCCESS"
    using c(2) by (simp add: MIN_CONTENT_CHARS_FOR_SUCCESS_def)
  from http_attempt_success [OF r article_page_body example_full_page(2) [of g i p, folded env_def]
         c(1) big example_story_plain(1,2) [of g i p "[article_page 28]", folded env_def],
         of attempt] c(2)
  show ?thesis by (auto simp: env_def)
qed

lemma example_full_story_succeeds:
  assumes "g (http_calls w) ''https://example.com/story'' timeout
             = Response 200 (serialize (article_page 28))"
  shows "succeeded (fetch_tiers (example_env g i p [article_page 28]) w
                      ''https://example.com/story'' timeout upf md)"
proof -
  let ?env = "example_env g i p [article_page 28]"
  have "g (http_calls (wld (initial_state md w))) ''https://example.com/story'' timeout
          = Response 200 (serialize (article_page 28))"
    using assms by simp
  from example_full_attempt [of g "initial_state md w" timeout i p 0, OF this] obtain c s' where
    "http_attempt ?env ''https://example.com/story'' timeout 0 (initial_state md w)
       = Return True c s'"
    by blast
  from fetch_tiers_at [OF first_attempt this, of upf] show ?thesis
    by (simp add: succeeded_def)
qed

lemma example_wrapper_url:
  "extract_original_url_from_msn (example_env g i p pages)
     ''https://www.msn.com/en-us/news?url=https://example.com/story''
   = Some ''https://example.com/story''"
  "extract_domain (example_env g i p pages)
     ''https://www.msn.com/en-us/news?url=https://example.com/story'' = ''msn.com''"
  "extract_domain (example_env g i p pages) ''https://example.com/story'' = ''example.com''"
  by code_simp+

lemma example_blocked_twice:
  "fetch_tiers (example_env (\<lambda>i u t. Response 403 body) i p pages) world0 u 30 upf md =
     ((False, http_403_msg,
       md\<lparr>http_status := Some 403, fetch_errors := [http_403_msg, http_403_msg]\<rparr>),
      world0\<lparr>http_calls := 2, slept := 2\<rparr>)"
  unfolding fetch_tiers_def attempts_range
  by (simp add: http_attempt_def on_response_def
      retry_or_fail_def return_failed_def append_error_def sleep_retry_def count_request_def
      set_status_def MAX_RETRIES_def RETRY_DELAY_def initial_state_def world0_def)

lemma example_timeout_twice:
  "fetch_tiers (example_env (\<lambda>i u t. Timeout) i p pages) world0 u 30 upf md =
     ((False, timeout_msg 30, md\<lparr>fetch_errors := [timeout_msg 30, timeout_msg 30]\<rparr>),
      world0\<lparr>http_calls := 2, slept := 2\<rparr>)"
  unfolding fetch_tiers_def attempts_range
  by (simp add: http_attempt_def retry_or_pass_def
      append_error_def sleep_retry_def count_request_def MAX_RETRIES_def RETRY_DELAY_def
      initial_state_def world0_def after_loop_def final_failure_def)

lemma example_paywall_page:
  "contains ''paywall'' (lower (serialize paywall_page))"
  "length (dom_find_all paywall_page [''p'']) = 2"
  "serialize paywall_page \<noteq> []"
  by code_simp+

lemma direct_fetch_returns:
  assumes "extract_original_url_from_msn env u = None"
  shows "\<exists>r. fetch_article (Suc depth) env w u timeout upf = Some r
           \<and> domain (metadata_of r) = extract_domain env u"
proof (cases "urlparse env u")
  case (Inl e)
  from fetch_article_raising [OF Inl, of depth w timeout upf] obtain r where
    r: "fetch_article (Suc depth) env w u timeout upf = Some r" by blast
  from direct_fetch_domain [OF assms r] r show ?thesis by blast
next
  case (Inr p)
  from fetch_article_direct [OF assms Inr, of depth w timeout upf] obtain r where
    r: "fetch_article (Suc depth) env w u timeout upf = Some r" by blast
  from direct_fetch_domain [OF assms r] r show ?thesis by blast
qed

section \<open>The claims\<close>

text \<open>
  In the theorems about the two tiers, \<open>before @ attempt # later\<close> splits the attempts
  \<^verbatim>\<open>range(MAX_RETRIES)\<close>, and \<open>s\<close> holds the locals when the loop reaches \<open>attempt\<close>:
  the attempts before it all went on to the next iteration. With \<open>before = []\<close> it is
  the first attempt and \<open>s\<close> the initial state.
\<close>

text \<open>
  C6. When the HTTP tier receives status 404, at whichever attempt, the fetch fails at
  once with the 404 message and \<^verbatim>\<open>http_status\<close> 404. The world it leaves is the world
  in which the request was made plus that one request: nothing was slept, no further
  request was made, and the headless tier has not been called since the fetch began.
\<close>

theorem not_found_is_terminal:
  assumes "[0..<MAX_RETRIES] = before @ attempt # later"
    and "http_loop env u timeout before (initial_state md w) = Exhausted s"
    and "requests_get env (http_calls (wld s)) u timeout = Response 404 body"
  shows "fetch_tiers env w u timeout use_playwright_fallback md =
           ((False, http_404_msg,
             (meta s)\<lparr>http_status := Some 404,
                      fetch_errors := all_errors s @ [http_404_msg]\<rparr>),
            (wld s)\<lparr>http_calls := http_calls (wld s) + 1\<rparr>)
         \<and> pw_calls (wld s) = pw_calls w"
proof -
  have "http_attempt env u timeout attempt s =
          Return False http_404_msg
            (s\<lparr>wld := (wld s)\<lparr>http_calls := http_calls (wld s) + 1\<rparr>,
               all_errors := all_errors s @ [http_404_msg],
               meta := (meta s)\<lparr>http_status := Some 404,
                               fetch_errors := all_errors s @ [http_404_msg]\<rparr>\<rparr>)"
    using assms(3)
    by (simp add: http_attempt_def on_response_def return_failed_def append_error_def
        count_request_def set_status_def)
  from fetch_tiers_at [OF assms(1,2) this] reach_pw_calls [OF assms(2)]
  show ?thesis by simp
qed

theorem not_found_is_terminal_witness:
  "fetch_tiers (example_env (\<lambda>i u t. Response 404 ''gone'') True no_browser []) world0
      ''https://example.com/story'' 30 True (new_metadata ''https://example.com/story'' ''requests'')
   = ((False, http_404_msg,
       (new_metadata ''https://example.com/story'' ''requests'')
         \<lparr>http_status := Some 404, fetch_errors := [http_404_msg]\<rparr>),
      world0\<lparr>http_calls := 1\<rparr>)
   \<and> pw_calls world0 = 0"
proof -
  let ?env = "example_env (\<lambda>i u t. Response 404 ''gone'') True no_browser []"
  let ?md = "new_metadata ''https://example.com/story'' ''requests''"
  have a: "[0..<MAX_RETRIES] = [] @ 0 # [1]"
    by (simp add: attempts_range)
  have b: "http_loop ?env ''https://example.com/story'' 30 [] (initial_state ?md world0)
             = Exhausted (initial_state ?md world0)"
    by simp
  have c: "requests_get ?env (http_calls (wld (initial_state ?md world0)))
             ''https://example.com/story'' 30 = Response 404 ''gone''"
    by (simp add: example_env_def)
  from not_found_is_terminal [OF a b c, of True]
  show ?thesis by (simp add: world0_def)
qed

text \<open>
  C7, amended. The paywall check is made only on a response with status 200 and a
  body. Such a response, whose parsed page (\<^verbatim>\<open>str(soup)\<close> in lower case) contains one
  of the four paywall markers and has fewer than five \<^verbatim>\<open>p\<close> elements, ends the fetch
  at once with the paywall message for the first marker found. The metadata returned
  is the one of before the attempt but for the status and the errors, so nothing was
  extracted; the world is the one of the request plus that request, so nothing was
  retried and no headless fetch was made. At the first attempt the accumulator was
  empty, which leaves one error in the list.
\<close>

theorem paywall_is_terminal:
  assumes "[0..<MAX_RETRIES] = before @ attempt # later"
    and "http_loop env u timeout before (initial_state md w) = Exhausted s"
    and "requests_get env (http_calls (wld s)) u timeout = Response 200 body"
    and "body \<noteq> []"
    and "indicator \<in> set paywall_indicators"
    and "contains indicator (lower (soup_str env (BeautifulSoup env body)))"
    and "length (find_all env (BeautifulSoup env body) [''p'']) < 5"
  shows "\<exists>found. detected_paywall env (BeautifulSoup env body) = Some found
           \<and> found \<in> set paywall_indicators
           \<and> fetch_tiers env w u timeout use_playwright_fallback md =
               ((False, paywall_msg found,
                 (meta s)\<lparr>http_status := Some 200,
                          fetch_errors := all_errors s @ [paywall_msg found]\<rparr>),
                (wld s)\<lparr>http_calls := http_calls (wld s) + 1\<rparr>)
           \<and> pw_calls (wld s) = pw_calls w
           \<and> (before = [] \<longrightarrow> all_errors s = [])"
proof -
  obtain found where f: "detected_paywall env (BeautifulSoup env body) = Some found"
    using assms(5,6) unfolding detected_paywall_def
    by (cases "find (\<lambda>indicator. contains indicator (lower (soup_str env (BeautifulSoup env body))))
                 paywall_indicators") (auto simp: find_None_iff)
  then have m: "found \<in> set paywall_indicators"
    unfolding detected_paywall_def by (auto simp: find_Some_iff)
  have "http_attempt env u timeout attempt s =
          Return False (paywall_msg found)
            (s\<lparr>wld := (wld s)\<lparr>http_calls := http_calls (wld s) + 1\<rparr>,
               all_errors := all_errors s @ [paywall_msg found],
               meta := (meta s)\<lparr>http_status := Some 200,
                               fetch_errors := all_errors s @ [paywall_msg found]\<rparr>\<rparr>)"
    using assms(3,4,7) f
    by (simp add: http_attempt_def on_response_def parse_and_extract_def return_failed_def
        append_error_def count_request_def set_status_def Let_def)
  from fetch_tiers_at [OF assms(1,2) this] reach_pw_calls [OF assms(2)] f m assms(2)
  show ?thesis by auto
qed

theorem paywall_is_terminal_witness:
  "fetch_tiers (example_env (\<lambda>i u t. Response 200 (serialize paywall_page)) True no_browser
                 [paywall_page]) world0
      ''https://example.com/story'' 30 True (new_metadata ''https://example.com/story'' ''requests'')
   = ((False, paywall_msg ''paywall'',
       (new_metadata ''https://example.com/story'' ''requests'')
         \<lparr>http_status := Some 200, fetch_errors := [paywall_msg ''paywall'']\<rparr>),
      world0\<lparr>http_calls := 1\<rparr>)"
proof -
  let ?env = "example_env (\<lambda>i u t. Response 200 (serialize paywall_page)) True no_browser
                [paywall_page]"
  let ?md = "new_metadata ''https://example.com/story'' ''requests''"
  have soup: "BeautifulSoup ?env (serialize paywall_page) = paywall_page"
    by code_simp
  have a: "[0..<MAX_RETRIES] = [] @ 0 # [1]"
    by (simp add: attempts_range)
  have b: "http_loop ?env ''https://example.com/story'' 30 [] (initial_state ?md world0)
             = Exhausted (initial_state ?md world0)"
    by simp
  have c: "requests_get ?env (http_calls (wld (initial_state ?md world0)))
             ''https://example.com/story'' 30 = Response 200 (serialize paywall_page)"
    by (simp add: example_env_def)
  have d: "serialize paywall_page \<noteq> []"
    by (simp add: paywall_page_def)
  have e: "''paywall'' \<in> set paywall_indicators"
    by (simp add: paywall_indicators_def)
  have f: "contains ''paywall'' (lower (soup_str ?env (BeautifulSoup ?env (serialize paywall_page))))"
    by code_simp
  have g: "length (find_all ?env (BeautifulSoup ?env (serialize paywall_page)) [''p'']) < 5"
    by code_simp
  have h: "detected_paywall ?env (BeautifulSoup ?env (serialize paywall_page)) = Some ''paywall''"
    by code_simp
  from paywall_is_terminal [OF a b c d e f g, of True] h
  show ?thesis by (auto simp: world0_def)
qed

text \<open>
  C7 as stated, for every HTTP response, does not hold. A site answers 403 with a
  page that names a paywall and has two paragraphs. The status is looked at before the
  body: the request is retried after a pause, and the fetch fails with the message of
  the 403 and two errors, none of them the paywall message.
\<close>

theorem blocked_paywall_page_is_retried:
  "contains ''paywall''
     (lower (soup_str
        (example_env (\<lambda>i u t. Response 403 (serialize paywall_page)) True no_browser
           [paywall_page])
        (BeautifulSoup
           (example_env (\<lambda>i u t. Response 403 (serialize paywall_page)) True no_browser
              [paywall_page])
           (serialize paywall_page))))
   \<and> length (find_all
        (example_env (\<lambda>i u t. Response 403 (serialize paywall_page)) True no_browser
           [paywall_page])
        (BeautifulSoup
           (example_env (\<lambda>i u t. Response 403 (serialize paywall_page)) True no_browser
              [paywall_page])
           (serialize paywall_page)) [''p'']) < 5
   \<and> fetch_article 1
        (example_env (\<lambda>i u t. Response 403 (serialize paywall_page)) True no_browser
           [paywall_page])
        world0 ''https://example.com/story'' 30 True
      = Some ((False, http_403_msg,
               (new_metadata ''https://example.com/story'' ''requests'')
                 \<lparr>domain := ''example.com'', http_status := Some 403,
                  fetch_errors := [http_403_msg, http_403_msg]\<rparr>),
              world0\<lparr>http_calls := 2, slept := 2\<rparr>)
   \<and> http_403_msg \<noteq> paywall_msg ''paywall''"
  unfolding example_story_fetch example_blocked_twice
  using example_paywall_page
  by (simp add: http_403_msg_def paywall_msg_def)

text \<open>
  C5. The error accumulator \<^verbatim>\<open>all_errors\<close> never shrinks. Whatever one pass through
  the loop body does, and however it ends, the errors accumulated before it are the
  front of the accumulator after it, so the list is at least as long; the same holds
  over any number of passes; and the \<^verbatim>\<open>fetch_errors\<close> that the part after the loop
  returns, whether the headless tier succeeds, fails or is not run, starts with all
  the errors of the HTTP tier.
\<close>

theorem error_accumulator_never_shrinks:
  "prefix (all_errors s) (all_errors (step_state (http_attempt env u timeout attempt s)))
   \<and> length (all_errors s)
       \<le> length (all_errors (step_state (http_attempt env u timeout attempt s)))
   \<and> prefix (all_errors s) (all_errors (exit_state (http_loop env u timeout attempts s)))
   \<and> prefix (all_errors s)
        (fetch_errors (metadata_of (after_loop env u use_playwright_fallback s)))"
  using extends_http_attempt [of s env u timeout attempt]
        extends_http_loop [of s env u timeout attempts]
        after_loop_errors [of s env u use_playwright_fallback]
  by (auto simp: extends_def prefix_length_le)

text \<open>
  C8. A document with more than 20 \<^verbatim>\<open>script\<close> elements, fewer than 3 \<^verbatim>\<open>p\<close> elements
  and less than 500 characters of text fails extraction with the message that starts
  with "JavaScript-rendered page", the words the orchestrator looks for. The counts are
  those of the document as it was parsed: whatever \<^verbatim>\<open>decompose\<close> would do to it
  (\<open>d\<close> is any function at all), the verdict is the same, since it is reached before
  anything is removed.
\<close>

theorem js_rendered_page_detected:
  assumes "length (find_all env soup [''script'']) > 20"
    and "length (find_all env soup [''p'']) < 3"
    and "length (get_text env soup '' '' True) < 500"
  shows "fst (extract_content_from_html (env\<lparr>decompose := d\<rparr>) soup md) =
           (False, js_rendered_msg (length (find_all env soup [''script'']))
                     (length (find_all env soup [''p''])))
         \<and> prefix ''JavaScript-rendered page''
              (js_rendered_msg (length (find_all env soup [''script'']))
                     (length (find_all env soup [''p''])))
         \<and> contains ''JavaScript-rendered''
              (js_rendered_msg (length (find_all env soup [''script'']))
                     (length (find_all env soup [''p''])))"
  using assms
  by (simp add: extract_content_from_html_def extract_text_def Let_def js_rendered_msg_def)

theorem js_rendered_page_detected_witness:
  "fst (extract_content_from_html
          ((example_env (\<lambda>i u t. Timeout) False no_browser [])\<lparr>decompose := dom_decompose\<rparr>)
          app_page (new_metadata ''https://example.com/app'' ''requests''))
     = (False, js_rendered_msg 25 1)
   \<and> prefix ''JavaScript-rendered page'' (js_rendered_msg 25 1)"
proof -
  let ?env = "example_env (\<lambda>i u t. Timeout) False no_browser []"
  have a: "length (find_all ?env app_page [''script'']) = 25"
    by code_simp
  have b: "length (find_all ?env app_page [''p'']) = 1"
    by code_simp
  have c: "length (get_text ?env app_page '' '' True) < 500"
    by code_simp
  from js_rendered_page_detected [of ?env app_page dom_decompose
         "new_metadata ''https://example.com/app'' ''requests''"] a b c
  show ?thesis by simp
qed

text \<open>
  C10. \<^verbatim>\<open>extract_domain\<close> returns the empty string when \<^verbatim>\<open>urlparse\<close> raises.
  Otherwise it removes "www." wherever it occurs in the host, not only at the front:
  for a host \<open>a @ ''www.'' @ b\<close> whose part \<open>a\<close> is free of "www.", what comes back is
  \<open>a\<close> followed by \<open>b\<close> treated the same way. For a URL it fetches itself (one that is
  not unwrapped) \<^verbatim>\<open>fetch_article\<close> returns, at any depth of at least one, and the
  domain in the metadata it returns is that same string.
\<close>

theorem extract_domain_removes_every_www:
  "(urlparse env u = Inl e \<longrightarrow> extract_domain env u = '''')
   \<and> (urlparse env u = Inr p \<and> netloc p = a @ ''www.'' @ b \<and> \<not> contains ''www.'' a
        \<longrightarrow> extract_domain env u = a @ replace ''www.'' '''' b)
   \<and> (extract_original_url_from_msn env u = None
        \<longrightarrow> (\<exists>r. fetch_article (Suc depth) env w u timeout use_playwright_fallback = Some r
                \<and> domain (metadata_of r) = extract_domain env u))"
proof (intro conjI impI)
  assume "urlparse env u = Inl e"
  then show "extract_domain env u = ''''" by (simp add: extract_domain_def)
next
  assume "urlparse env u = Inr p \<and> netloc p = a @ ''www.'' @ b \<and> \<not> contains ''www.'' a"
  then show "extract_domain env u = a @ replace ''www.'' '''' b"
    using replace_www_skips [of a b] by (simp add: extract_domain_def)
next
  assume "extract_original_url_from_msn env u = None"
  then show "\<exists>r. fetch_article (Suc depth) env w u timeout use_playwright_fallback = Some r
                \<and> domain (metadata_of r) = extract_domain env u"
    by (rule direct_fetch_returns)
qed

theorem extract_domain_removes_every_www_witness:
  "extract_domain (example_env (\<lambda>i u t. Timeout) False no_browser [])
      ''https://sub.www.example.com/story'' = ''sub.example.com''
   \<and> extract_domain (example_env (\<lambda>i u t. Timeout) False no_browser [])
      ''https://awww.example.com/story'' = ''aexample.com''
   \<and> extract_domain (example_env (\<lambda>i u t. Timeout) False no_browser [])
      ''http://[::1/story'' = ''''
   \<and> fetch_article (Suc 0) (example_env (\<lambda>i u t. Timeout) False no_browser []) world0
        ''https://sub.www.example.com/story'' 30 True \<noteq> None
   \<and> domain (metadata_of (the (fetch_article (Suc 0)
        (example_env (\<lambda>i u t. Timeout) False no_browser []) world0
        ''https://sub.www.example.com/story'' 30 True))) = ''sub.example.com''"
proof -
  let ?env = "example_env (\<lambda>i u t. Timeout) False no_browser []"
  have a: "urlparse ?env ''https://sub.www.example.com/story''
             = Inr \<lparr>netloc = ''sub.'' @ ''www.'' @ ''example.com'', query = ''''\<rparr>"
    by code_simp
  have b: "urlparse ?env ''https://awww.example.com/story''
             = Inr \<lparr>netloc = ''a'' @ ''www.'' @ ''example.com'', query = ''''\<rparr>"
    by code_simp
  have c: "urlparse ?env ''http://[::1/story'' = Inl (PyException ''ValueError'' ''Invalid IPv6 URL'')"
    by code_simp
  have n: "\<not> contains ''www.'' ''sub.''" "\<not> contains ''www.'' ''a''"
    by simp_all
  have r: "replace ''www.'' '''' ''example.com'' = ''example.com''"
    by simp
  have m: "extract_original_url_from_msn ?env ''https://sub.www.example.com/story'' = None"
    by code_simp
  have A: "extract_domain ?env ''https://sub.www.example.com/story'' = ''sub.example.com''"
    using extract_domain_removes_every_www
         [of ?env "''https://sub.www.example.com/story''" _
             "\<lparr>netloc = ''sub.'' @ ''www.'' @ ''example.com'', query = ''''\<rparr>"
             "''sub.''" "''example.com''"] a n r
    by simp
  have B: "extract_domain ?env ''https://awww.example.com/story'' = ''aexample.com''"
    using extract_domain_removes_every_www
         [of ?env "''https://awww.example.com/story''" _
             "\<lparr>netloc = ''a'' @ ''www.'' @ ''example.com'', query = ''''\<rparr>"
             "''a''" "''example.com''"] b n r
    by simp
  have C: "extract_domain ?env ''http://[::1/story'' = ''''"
    using extract_domain_removes_every_www
         [of ?env "''http://[::1/story''" "PyException ''ValueError'' ''Invalid IPv6 URL''"] c
    by simp
  from extract_domain_removes_every_www
         [of ?env "''https://sub.www.example.com/story''" _ _ _ _ 0 world0 30 True] m
  obtain x where
    x: "fetch_article (Suc 0) ?env world0 ''https://sub.www.example.com/story'' 30 True = Some x"
       "domain (metadata_of x) = extract_domain ?env ''https://sub.www.example.com/story''"
    by blast
  show ?thesis
    unfolding x(1) using A B C x(2) by simp
qed




text \<open>
  C2. The failures of the HTTP tier other than 404 and a paywall are not handed to the
  headless tier. With Playwright installed and the fallback enabled, a site that answers
  403 to both attempts makes the fetch fail from the HTTP tier with the message of the
  403, after two requests and one pause, and no headless fetch is made; a site whose
  two requests time out gives the same, with the message of the timeout. The docstring
  of \<^verbatim>\<open>fetch_article\<close> names the second tier as the "Playwright headless browser
  fallback (if tier 1 fails or returns insufficient content)" and says of
  \<^verbatim>\<open>use_playwright_fallback\<close> that it is "whether to try playwright if requests-based
  fetch fails/returns little content". In the code the branches for 403, 429, 5xx and
  an empty body return at the last attempt, and the exception handlers fall through to
  the fallback with \<^verbatim>\<open>should_try_playwright\<close> never set, so the fallback is skipped.
\<close>

theorem blocked_twice_fails_without_headless:
  "fst (check_playwright_available
          (example_env (\<lambda>i u t. Response 403 ''denied'') True no_browser []) world0)
   \<and> fetch_article 1 (example_env (\<lambda>i u t. Response 403 ''denied'') True no_browser [])
        world0 ''https://example.com/story'' 30 True
      = Some ((False, http_403_msg,
               (new_metadata ''https://example.com/story'' ''requests'')
                 \<lparr>domain := ''example.com'', http_status := Some 403,
                  fetch_errors := [http_403_msg, http_403_msg]\<rparr>),
              world0\<lparr>http_calls := 2, slept := 2\<rparr>)
   \<and> pw_calls (world0\<lparr>http_calls := 2, slept := 2\<rparr>) = 0
   \<and> fst (check_playwright_available
          (example_env (\<lambda>i u t. Timeout) True no_browser []) world0)
   \<and> fetch_article 1 (example_env (\<lambda>i u t. Timeout) True no_browser [])
        world0 ''https://example.com/story'' 30 True
      = Some ((False, timeout_msg 30,
               (new_metadata ''https://example.com/story'' ''requests'')
                 \<lparr>domain := ''example.com'',
                  fetch_errors := [timeout_msg 30, timeout_msg 30]\<rparr>),
              world0\<lparr>http_calls := 2, slept := 2\<rparr>)"
  unfolding example_story_fetch example_blocked_twice example_timeout_twice
  by (simp add: check_playwright_available_def world0_def)

text \<open>
  C3. The errors of failed attempts are not exposed when the HTTP tier succeeds in the
  end. A site answers 500 to the first request and 200 with an article of 505
  characters to the second: the fetch succeeds after two requests, the accumulator
  \<^verbatim>\<open>all_errors\<close> holds the error of the first attempt, and the \<^verbatim>\<open>fetch_errors\<close> of the
  returned metadata are empty. Every failing return and the return of a headless
  success assign the accumulator to \<^verbatim>\<open>metadata["fetch_errors"]\<close>; the return of the
  HTTP tier's success does not.
\<close>

theorem retry_errors_lost_on_success:
  "fetch_article 1
     (example_env (\<lambda>i u t. if i = 0 then Response 500 '''' else Response 200 (serialize (article_page 28)))
        False no_browser [article_page 28])
     world0 ''https://example.com/story'' 30 True \<noteq> None
   \<and> succeeded (the (fetch_article 1
     (example_env (\<lambda>i u t. if i = 0 then Response 500 '''' else Response 200 (serialize (article_page 28)))
        False no_browser [article_page 28])
     world0 ''https://example.com/story'' 30 True))
   \<and> fetch_errors (metadata_of (the (fetch_article 1
     (example_env (\<lambda>i u t. if i = 0 then Response 500 '''' else Response 200 (serialize (article_page 28)))
        False no_browser [article_page 28])
     world0 ''https://example.com/story'' 30 True))) = []
   \<and> http_calls (world_of (the (fetch_article 1
     (example_env (\<lambda>i u t. if i = 0 then Response 500 '''' else Response 200 (serialize (article_page 28)))
        False no_browser [article_page 28])
     world0 ''https://example.com/story'' 30 True))) = 2
   \<and> all_errors (exit_state (http_loop
     (example_env (\<lambda>i u t. if i = 0 then Response 500 '''' else Response 200 (serialize (article_page 28)))
        False no_browser [article_page 28])
     ''https://example.com/story'' 30 [0..<MAX_RETRIES]
     (initial_state ((new_metadata ''https://example.com/story'' ''requests'')
                       \<lparr>domain := ''example.com''\<rparr>) world0)))
     = [server_error_msg 500]"
proof -
  let ?g = "\<lambda>i u t. if i = (0::nat) then Response 500 '''' else Response 200 (serialize (article_page 28))"
  let ?env = "example_env ?g False no_browser [article_page 28]"
  let ?u = "''https://example.com/story''"
  let ?md = "(new_metadata ?u ''requests'')\<lparr>domain := ''example.com''\<rparr>"
  let ?s1 = "sleep_retry (append_error (server_error_msg 500)
               (set_status 500 (count_request (initial_state ?md world0))))"
  have a1: "http_attempt ?env ?u 30 0 (initial_state ?md world0) = Continue ?s1"
    by (simp add: http_attempt_def on_response_def retry_or_fail_def MAX_RETRIES_def world0_def)
  have w1: "http_calls (wld ?s1) = 1"
    by (simp add: sleep_retry_def append_error_def set_status_def count_request_def world0_def)
  have "?g (http_calls (wld ?s1)) ?u 30 = Response 200 (serialize (article_page 28))"
    unfolding w1 by simp
  from example_full_attempt [of ?g ?s1 30 False no_browser 1, OF this] obtain c where
    a2: "http_attempt ?env ?u 30 1 ?s1 =
           Return True c
             (?s1\<lparr>wld := (wld ?s1)\<lparr>http_calls := http_calls (wld ?s1) + 1\<rparr>,
                meta := (read_title_author ?env (article_page 28)
                           ((meta ?s1)\<lparr>http_status := Some 200\<rparr>))
                        \<lparr>fetch_method := ''requests''\<rparr>\<rparr>)"
    by blast
  have l: "http_loop ?env ?u 30 [0..<MAX_RETRIES] (initial_state ?md world0) =
             Returned True c
             (?s1\<lparr>wld := (wld ?s1)\<lparr>http_calls := http_calls (wld ?s1) + 1\<rparr>,
                meta := (read_title_author ?env (article_page 28)
                           ((meta ?s1)\<lparr>http_status := Some 200\<rparr>))
                        \<lparr>fetch_method := ''requests''\<rparr>\<rparr>)"
    unfolding attempts_range using a1 a2 by simp
  have f: "fetch_article 1 ?env world0 ?u 30 True = Some (fetch_tiers ?env world0 ?u 30 True ?md)"
    by (rule example_story_fetch)
  show ?thesis
    unfolding f l fetch_tiers_def
    by (simp add: l succeeded_def metadata_of_def world_of_def read_title_author_keeps
        sleep_retry_def append_error_def set_status_def count_request_def new_metadata_def
        world0_def)
qed

text \<open>
  C4, amended. When \<^verbatim>\<open>fetch_article\<close> on an msn.com wrapper succeeds by fetching the
  embedded original URL, it returns the result of that inner call as it is. For an
  original URL that is not a wrapper itself, the domain of the returned metadata is
  therefore the domain of the original URL, the URL that was fetched, and not that of
  the wrapper.
\<close>

theorem unwrapped_domain_is_of_original:
  assumes "extract_original_url_from_msn env u = Some x" and "x \<noteq> ''''"
    and "extract_original_url_from_msn env x = None"
    and "fetch_article depth env w x timeout True = Some r" and "succeeded r"
  shows "fetch_article (Suc depth) env w u timeout use_playwright_fallback = Some r
         \<and> domain (metadata_of r) = extract_domain env x"
  using unwrap_returns_nested [OF assms(1,2,4,5)] direct_fetch_domain [OF assms(3,4)]
  by simp

theorem unwrapped_domain_is_of_original_witness:
  "fetch_article 2
     (example_env (\<lambda>i u t. Response 200 (serialize (article_page 28))) False no_browser
        [article_page 28])
     world0 ''https://www.msn.com/en-us/news?url=https://example.com/story'' 30 True
   = fetch_article 1
     (example_env (\<lambda>i u t. Response 200 (serialize (article_page 28))) False no_browser
        [article_page 28])
     world0 ''https://example.com/story'' 30 True
   \<and> domain (metadata_of (the (fetch_article 1
     (example_env (\<lambda>i u t. Response 200 (serialize (article_page 28))) False no_browser
        [article_page 28])
     world0 ''https://example.com/story'' 30 True))) = ''example.com''"
proof -
  let ?g = "\<lambda>i u t. Response 200 (serialize (article_page 28))"
  let ?env = "example_env ?g False no_browser [article_page 28]"
  let ?md = "(new_metadata ''https://example.com/story'' ''requests'')\<lparr>domain := ''example.com''\<rparr>"
  let ?r = "fetch_tiers ?env world0 ''https://example.com/story'' 30 True ?md"
  have b: "''https://example.com/story'' \<noteq> ''''"
    by simp
  have c: "fetch_article 1 ?env world0 ''https://example.com/story'' 30 True = Some ?r"
    by (rule example_story_fetch)
  have d: "succeeded ?r"
    by (rule example_full_story_succeeds) simp
  from unwrapped_domain_is_of_original
         [OF example_wrapper_url(1) b example_story_plain(3) c d, of True]
       example_wrapper_url(3) [of ?g False no_browser "[article_page 28]"]
  show ?thesis unfolding c by (simp add: numeral_2_eq_2)
qed

text \<open>
  C4 as stated does not hold. The wrapper
  \<^verbatim>\<open>https://www.msn.com/en-us/news?url=https://example.com/story\<close> is fetched with
  success, and the domain returned is example.com, where the domain of the input URL
  is msn.com.
\<close>

theorem unwrapped_domain_is_not_of_wrapper:
  "fetch_article 2
     (example_env (\<lambda>i u t. Response 200 (serialize (article_page 28))) False no_browser
        [article_page 28])
     world0 ''https://www.msn.com/en-us/news?url=https://example.com/story'' 30 True \<noteq> None
   \<and> succeeded (the (fetch_article 2
     (example_env (\<lambda>i u t. Response 200 (serialize (article_page 28))) False no_browser
        [article_page 28])
     world0 ''https://www.msn.com/en-us/news?url=https://example.com/story'' 30 True))
   \<and> domain (metadata_of (the (fetch_article 2
     (example_env (\<lambda>i u t. Response 200 (serialize (article_page 28))) False no_browser
        [article_page 28])
     world0 ''https://www.msn.com/en-us/news?url=https://example.com/story'' 30 True)))
      = ''example.com''
   \<and> extract_domain
     (example_env (\<lambda>i u t. Response 200 (serialize (article_page 28))) False no_browser
        [article_page 28])
     ''https://www.msn.com/en-us/news?url=https://example.com/story'' = ''msn.com''"
proof -
  let ?g = "\<lambda>i u t. Response 200 (serialize (article_page 28))"
  let ?env = "example_env ?g False no_browser [article_page 28]"
  let ?md = "(new_metadata ''https://example.com/story'' ''requests'')\<lparr>domain := ''example.com''\<rparr>"
  let ?r = "fetch_tiers ?env world0 ''https://example.com/story'' 30 True ?md"
  have b: "''https://example.com/story'' \<noteq> ''''"
    by simp
  have c: "fetch_article 1 ?env world0 ''https://example.com/story'' 30 True = Some ?r"
    by (rule example_story_fetch)
  have d: "succeeded ?r"
    by (rule example_full_story_succeeds) simp
  have "fetch_article (Suc 1) ?env world0
          ''https://www.msn.com/en-us/news?url=https://example.com/story'' 30 True = Some ?r"
    by (rule unwrap_returns_nested [OF example_wrapper_url(1) b c d])
  then have f: "fetch_article 2 ?env world0
          ''https://www.msn.com/en-us/news?url=https://example.com/story'' 30 True = Some ?r"
    by (simp add: numeral_2_eq_2)
  from direct_fetch_domain [OF example_story_plain(3) c]
       example_wrapper_url(3) [of ?g False no_browser "[article_page 28]"]
  have e: "domain (metadata_of ?r) = ''example.com''"
    by simp
  show ?thesis
    unfolding f using d e example_wrapper_url(2) [of ?g False no_browser "[article_page 28]"]
    by simp
qed

text \<open>
  C9. For an msn.com wrapper whose query gives the original URL \<open>x\<close> (the value of
  \<^verbatim>\<open>url\<close>, else of \<^verbatim>\<open>originalUrl\<close>; not empty), if the fetch of \<open>x\<close> with the default
  fallback setting succeeds from the same world, the fetch of the wrapper returns the
  very same result: the same success flag, the same text and the same metadata,
  whatever its own fallback setting. The wrapper needs one level of calls more than
  \<open>x\<close>; any greater depth gives the same.
\<close>

theorem unwrap_round_trip:
  assumes "extract_original_url_from_msn env u = Some x" and "x \<noteq> ''''"
    and "fetch_article depth env w x timeout True = Some r" and "succeeded r"
    and "depth < depth'"
  shows "fetch_article depth' env w u timeout use_playwright_fallback = Some r"
proof -
  from unwrap_returns_nested [OF assms(1-4)]
  have "fetch_article (Suc depth) env w u timeout use_playwright_fallback = Some r" .
  from fetch_article_depth_mono [OF this] assms(5) show ?thesis by simp
qed

theorem unwrap_round_trip_witness:
  "fetch_article 2
     (example_env (\<lambda>i u t. Response 200 (serialize (article_page 28))) False no_browser
        [article_page 28])
     world0 ''https://www.msn.com/en-us/news?url=https://example.com/story'' 30 False
   = fetch_article 1
     (example_env (\<lambda>i u t. Response 200 (serialize (article_page 28))) False no_browser
        [article_page 28])
     world0 ''https://example.com/story'' 30 True
   \<and> succeeded (the (fetch_article 1
     (example_env (\<lambda>i u t. Response 200 (serialize (article_page 28))) False no_browser
        [article_page 28])
     world0 ''https://example.com/story'' 30 True))"
proof -
  let ?g = "\<lambda>i u t. Response 200 (serialize (article_page 28))"
  let ?env = "example_env ?g False no_browser [article_page 28]"
  let ?md = "(new_metadata ''https://example.com/story'' ''requests'')\<lparr>domain := ''example.com''\<rparr>"
  let ?r = "fetch_tiers ?env world0 ''https://example.com/story'' 30 True ?md"
  have b: "''https://example.com/story'' \<noteq> ''''"
    by simp
  have c: "fetch_article 1 ?env world0 ''https://example.com/story'' 30 True = Some ?r"
    by (rule example_story_fetch)
  have d: "succeeded ?r"
    by (rule example_full_story_succeeds) simp
  have e: "(1::nat) < 2"
    by simp
  from unwrap_round_trip [OF example_wrapper_url(1) b c d e, of False] d
  show ?thesis unfolding c by simp
qed

end
